theory Spec2Isabelle
  imports Main "HOL-Library.Sublist"
begin

section \<open>Values exchanged with the upstream service\<close>

text \<open>
  The server builds Python dictionaries and serialises them with \<open>json.dumps\<close>.
  A dictionary is an association list, in insertion order, with each key once;
  \<open>dict.get\<close> is \<open>jget\<close>. \<open>JNull\<close> is Python's \<open>None\<close>, and \<open>JDec m e\<close> is the
  non-integer number \<open>m * 10 ^ e\<close> (\<open>0.3\<close> is \<open>JDec 3 (-1)\<close>).
\<close>

datatype json =
    JNull
  | JBool bool
  | JInt int
  | JDec int int
  | JStr string
  | JList "json list"
  | JObj "(string \<times> json) list"

fun jget :: "json \<Rightarrow> string \<Rightarrow> json option" where
  "jget (JObj kvs) k = map_of kvs k"
| "jget _ k = None"

text \<open>
  A capability result is a dictionary. The failure results of every capability carry an
  \<open>error\<close> entry; the success results never do.
\<close>

definition is_failure :: "json \<Rightarrow> bool" where
  "is_failure r = (jget r ''error'' \<noteq> None)"

definition is_success :: "json \<Rightarrow> bool" where
  "is_success r = (\<exists>kvs. r = JObj kvs \<and> map_of kvs ''error'' = None)"

section \<open>Python strings\<close>

text \<open>
  Characters are code points below 256. \<open>is_space\<close> is \<open>str.isspace\<close> on one character,
  \<open>char_lower\<close> is \<open>str.lower\<close> on one character, \<open>split_ws\<close> is \<open>str.split()\<close> without
  arguments (runs of whitespace separate the tokens, no empty token is produced) and
  \<open>py_join\<close> is \<open>sep.join(xs)\<close>.
\<close>

definition is_space :: "char \<Rightarrow> bool" where
  "is_space c =
    (let n = (of_char c :: nat)
     in (9 \<le> n \<and> n \<le> 13) \<or> (28 \<le> n \<and> n \<le> 32) \<or> n = 133 \<or> n = 160)"

definition char_lower :: "char \<Rightarrow> char" where
  "char_lower c =
    (let n = (of_char c :: nat)
     in if (65 \<le> n \<and> n \<le> 90) \<or> (192 \<le> n \<and> n \<le> 222 \<and> n \<noteq> 215)
        then char_of (n + 32) else c)"

definition str_lower :: "string \<Rightarrow> string" where
  "str_lower s = map char_lower s"

fun split_aux :: "string \<Rightarrow> string \<Rightarrow> string list" where
  "split_aux cur [] = (if cur = [] then [] else [cur])"
| "split_aux cur (c # cs) =
    (if is_space c then (if cur = [] then split_aux [] cs else cur # split_aux [] cs)
     else split_aux (cur @ [c]) cs)"

definition split_ws :: "string \<Rightarrow> string list" where
  "split_ws s = split_aux [] s"

fun py_join :: "string \<Rightarrow> string list \<Rightarrow> string" where
  "py_join sep [] = []"
| "py_join sep [x] = x"
| "py_join sep (x # y # ys) = x @ sep @ py_join sep (y # ys)"

text \<open>\<open>str(n)\<close> for an integer.\<close>

definition digit_char :: "nat \<Rightarrow> char" where
  "digit_char d = char_of (48 + d)"

fun str_of_nat :: "nat \<Rightarrow> string" where
  "str_of_nat n =
    (if n < 10 then [digit_char n] else str_of_nat (n div 10) @ [digit_char (n mod 10)])"

declare str_of_nat.simps [simp del]

definition str_of_int :: "int \<Rightarrow> string" where
  "str_of_int i = (if i < 0 then CHR ''-'' # str_of_nat (nat (- i)) else str_of_nat (nat i))"

section \<open>Awaited calls\<close>

text \<open>
  An exception is its kind (\<open>asyncio.TimeoutError\<close>, \<open>ValueError\<close> and \<open>TypeError\<close> are
  caught by kind somewhere, every other kind is \<open>Error\<close>) and its message, \<open>str(e)\<close>.
  A provider outside the process answers after some latency (in seconds), fails after
  some latency, or never returns. Awaiting it directly gives its answer, its exception, or
  never completes (\<open>Pending\<close>).
\<close>

datatype exn = TimeoutError | ValueError string | TypeError string | Error string

fun exn_str :: "exn \<Rightarrow> string" where
  "exn_str TimeoutError = []"
| "exn_str (ValueError m) = m"
| "exn_str (TypeError m) = m"
| "exn_str (Error m) = m"

datatype 'a reply = Responds nat 'a | Fails nat exn | NeverReturns

datatype 'a awaited = Done 'a | Raised exn | Pending

fun await :: "'a reply \<Rightarrow> 'a awaited" where
  "await (Responds t x) = Done x"
| "await (Fails t e) = Raised e"
| "await NeverReturns = Pending"


section \<open>Workflow simulator: \<open>RealtimeAPIProxy.execute_workflow\<close>\<close>

definition workflows :: "(string \<times> string list) list" where
  "workflows =
    [(''customer_onboarding'',
        [''verify_identity'', ''create_account'', ''send_welcome_email'', ''schedule_followup'']),
     (''support_ticket'',
        [''categorize_issue'', ''check_knowledge_base'', ''create_ticket'', ''assign_agent'',
         ''send_confirmation'']),
     (''order_processing'',
        [''validate_order'', ''check_inventory'', ''process_payment'', ''generate_invoice'',
         ''arrange_shipping'']),
     (''data_analysis'',
        [''fetch_data'', ''clean_data'', ''run_analysis'', ''generate_report''])]"

text \<open>
  \<open>workflows.get(workflow_type, [])\<close>. The caller passes \<open>arguments.get("workflow_type")\<close>,
  any JSON value (\<open>None\<close> when there is no such key). A key that is no string is not in
  the dictionary; a list or a dictionary is unhashable and makes \<open>dict.get\<close> raise.
\<close>

fun workflow_steps :: "json \<Rightarrow> exn + string list" where
  "workflow_steps (JStr w) = Inr (case map_of workflows w of None \<Rightarrow> [] | Some steps \<Rightarrow> steps)"
| "workflow_steps (JList xs) = Inl (TypeError ''unhashable type: list'')"
| "workflow_steps (JObj kvs) = Inl (TypeError ''unhashable type: dict'')"
| "workflow_steps _ = Inr []"

fun hashable :: "json \<Rightarrow> bool" where
  "hashable (JList xs) = False"
| "hashable (JObj kvs) = False"
| "hashable _ = True"

text \<open>The loop \<open>for step in steps: ...; completed_steps.append(step)\<close>.\<close>

fun run_steps :: "string list \<Rightarrow> string list \<Rightarrow> string list" where
  "run_steps [] completed_steps = completed_steps"
| "run_steps (step # steps) completed_steps = run_steps steps (completed_steps @ [step])"

text \<open>
  \<open>workflow_id\<close> (a fresh UUID) and \<open>duration_ms\<close> (wall-clock time) come from the
  environment and are parameters of the model.
\<close>

definition execute_workflow :: "string \<Rightarrow> int \<Rightarrow> json \<Rightarrow> json \<Rightarrow> exn + json" where
  "execute_workflow workflow_id duration_ms workflow_type parameters =
    (case workflow_steps workflow_type of
       Inl e \<Rightarrow> Inl e
     | Inr steps \<Rightarrow>
        (let completed_steps = run_steps steps []
         in Inr (JObj [(''workflow_id'', JStr workflow_id),
                       (''type'', workflow_type),
                       (''status'', JStr ''completed''),
                       (''steps_executed'', JList (map JStr completed_steps)),
                       (''duration_ms'', JInt duration_ms),
                       (''parameters'', parameters)])))"

definition canonical_workflows :: "string list" where
  "canonical_workflows =
    [''customer_onboarding'', ''support_ticket'', ''order_processing'', ''data_analysis'']"

section \<open>Knowledge base search: \<open>RealtimeAPIProxy.search_rag\<close>\<close>

text \<open>
  A stored chunk, with the metadata \<open>index_document\<close> writes: the file name, the chunk
  index and the file id (each may be absent) and any further entries.
\<close>

record doc =
  page_content :: string
  filename :: "string option"
  chunk_index :: "int option"
  file_id :: "string option"
  more_metadata :: "(string \<times> json) list"

definition metadata :: "doc \<Rightarrow> json" where
  "metadata d =
    JObj ((case file_id d of None \<Rightarrow> [] | Some f \<Rightarrow> [(''file_id'', JStr f)])
        @ (case chunk_index d of None \<Rightarrow> [] | Some i \<Rightarrow> [(''chunk_index'', JInt i)])
        @ (case filename d of None \<Rightarrow> [] | Some f \<Rightarrow> [(''filename'', JStr f)])
        @ more_metadata d)"

text \<open>
  The vector store: \<open>None\<close> when \<open>initialize_rag\<close> failed, otherwise the behaviour of
  \<open>similarity_search(query, k)\<close>. The call is synchronous: a store that never
  returns blocks the caller for good.
\<close>

type_synonym rag_store = "(json \<Rightarrow> json \<Rightarrow> doc list reply) option"

text \<open>\<open>" ".join(query.lower().split()[:3])\<close>; \<open>query.lower()\<close> raises on a non-string.\<close>

definition keyword_query :: "string \<Rightarrow> string" where
  "keyword_query query = py_join '' '' (take 3 (split_ws (str_lower query)))"

fun keyword_query_json :: "json \<Rightarrow> exn + json" where
  "keyword_query_json (JStr q) = Inr (JStr (keyword_query q))"
| "keyword_query_json _ = Inl (Error ''object has no attribute lower'')"

definition doc_filename :: "doc \<Rightarrow> string" where
  "doc_filename d = (case filename d of None \<Rightarrow> ''unknown'' | Some f \<Rightarrow> f)"

definition result_entry :: "nat \<Rightarrow> doc \<Rightarrow> json" where
  "result_entry i d =
    JObj [(''content'', JStr (page_content d)),
          (''metadata'', metadata d),
          (''relevance_rank'', JInt (int i + 1)),
          (''file_id'', JStr (case file_id d of None \<Rightarrow> ''unknown'' | Some f \<Rightarrow> f)),
          (''source'', JStr (doc_filename d @ '' (chunk ''
              @ str_of_int ((case chunk_index d of None \<Rightarrow> 0 | Some c \<Rightarrow> c) + 1) @ '')''))]"

text \<open>The loop over \<open>enumerate(docs)\<close>, with its two accumulators.\<close>

fun collect_results ::
  "nat \<Rightarrow> doc list \<Rightarrow> json list \<Rightarrow> string list \<Rightarrow> json list \<times> string list" where
  "collect_results i [] results sources = (results, sources)"
| "collect_results i (d # ds) results sources =
    collect_results (Suc i) ds (results @ [result_entry i d])
      (if doc_filename d \<in> set sources then sources else sources @ [doc_filename d])"

definition formatted_response :: "json \<Rightarrow> doc list \<Rightarrow> json" where
  "formatted_response query docs =
    (let (results, sources) = collect_results 0 docs [] []
     in JObj [(''query'', query),
              (''results'', JList results),
              (''count'', JInt (int (length results))),
              (''sources'', JList (map JStr sources)),
              (''summary'',
                 JStr (if results \<noteq> []
                       then ''Found '' @ str_of_nat (length results) @ '' relevant chunks from ''
                            @ str_of_nat (length sources) @ '' document(s): ''
                            @ py_join '', '' sources @ ''. Content: ''
                            @ py_join '' '' (map page_content (take 2 docs))
                       else ''No results found.''))])"

definition no_documents :: "json \<Rightarrow> json" where
  "no_documents query =
    JObj [(''query'', query),
          (''results'', JList []),
          (''count'', JInt 0),
          (''message'', JStr (''No relevant documents found. Please make sure documents ''
                              @ ''are uploaded to the knowledge base.''))]"

definition rag_error :: "string \<Rightarrow> json" where
  "rag_error msg = JObj [(''error'', JStr msg), (''results'', JList [])]"

text \<open>
  \<open>search_rag\<close> returns the list of the searches it sent to the store (query and \<open>k\<close>),
  in order, and its result. Every exception is caught and turned into an error result;
  only a store that never returns keeps \<open>search_rag\<close> from returning.
\<close>

definition search_rag ::
  "rag_store \<Rightarrow> json \<Rightarrow> json \<Rightarrow> (json \<times> json) list \<times> json awaited" where
  "search_rag store query top_k =
    (case store of
       None \<Rightarrow> ([], Done (rag_error ''Knowledge base not initialized''))
     | Some similarity_search \<Rightarrow>
        (case await (similarity_search query top_k) of
           Pending \<Rightarrow> ([(query, top_k)], Pending)
         | Raised e \<Rightarrow> ([(query, top_k)], Done (rag_error (exn_str e)))
         | Done docs \<Rightarrow>
            if docs \<noteq> [] then ([(query, top_k)], Done (formatted_response query docs))
            else
              (case keyword_query_json query of
                 Inl e \<Rightarrow> ([(query, top_k)], Done (rag_error (exn_str e)))
               | Inr kq \<Rightarrow>
                  (case await (similarity_search kq top_k) of
                     Pending \<Rightarrow> ([(query, top_k), (kq, top_k)], Pending)
                   | Raised e \<Rightarrow> ([(query, top_k), (kq, top_k)], Done (rag_error (exn_str e)))
                   | Done docs2 \<Rightarrow>
                      if docs2 \<noteq> []
                      then ([(query, top_k), (kq, top_k)], Done (formatted_response query docs2))
                      else ([(query, top_k), (kq, top_k)], Done (no_documents query))))))"

text \<open>
  The words of the specification, for comparison: the first three whitespace-delimited
  tokens of a string, read off from the left.
\<close>

fun tokens_upto :: "nat \<Rightarrow> string \<Rightarrow> string list" where
  "tokens_upto 0 s = []"
| "tokens_upto (Suc n) s =
    (case dropWhile is_space s of
       [] \<Rightarrow> []
     | t \<Rightarrow> takeWhile (\<lambda>c. \<not> is_space c) t
            # tokens_upto n (dropWhile (\<lambda>c. \<not> is_space c) t))"

definition first_three_tokens :: "string \<Rightarrow> string list" where
  "first_three_tokens s = tokens_upto 3 s"

text \<open>
  The index is unavailable for a query when there is no store, or when a search the
  function sends raises.
\<close>

definition index_unavailable :: "rag_store \<Rightarrow> string \<Rightarrow> json \<Rightarrow> bool" where
  "index_unavailable store q k =
    (case store of
       None \<Rightarrow> True
     | Some similarity_search \<Rightarrow>
        (case await (similarity_search (JStr q) k) of
           Raised e \<Rightarrow> True
         | Pending \<Rightarrow> False
         | Done docs \<Rightarrow>
            docs = [] \<and>
            (case await (similarity_search (JStr (keyword_query q)) k) of
               Raised e \<Rightarrow> True | _ \<Rightarrow> False)))"

section \<open>Python values and the world outside the process\<close>

text \<open>
  \<open>py_truthy\<close> is the truth value Python gives a JSON value in \<open>if x\<close>; \<open>pget\<close> is
  \<open>d.get(key, default)\<close> on a dictionary. \<open>str.upper\<close> works on code points below 256; the
  two letters whose capitals lie beyond code point 255 are left as they are.
\<close>

fun py_truthy :: "json \<Rightarrow> bool" where
  "py_truthy JNull = False"
| "py_truthy (JBool b) = b"
| "py_truthy (JInt i) = (i \<noteq> 0)"
| "py_truthy (JDec m e) = (m \<noteq> 0)"
| "py_truthy (JStr s) = (s \<noteq> [])"
| "py_truthy (JList xs) = (xs \<noteq> [])"
| "py_truthy (JObj kvs) = (kvs \<noteq> [])"

definition pget :: "(string \<times> json) list \<Rightarrow> string \<Rightarrow> json \<Rightarrow> json" where
  "pget d k dflt = (case map_of d k of None \<Rightarrow> dflt | Some v \<Rightarrow> v)"

definition char_upper :: "char \<Rightarrow> char" where
  "char_upper c =
    (let n = (of_char c :: nat)
     in if (97 \<le> n \<and> n \<le> 122) \<or> (224 \<le> n \<and> n \<le> 254 \<and> n \<noteq> 247)
        then char_of (n - 32) else c)"

definition str_upper :: "string \<Rightarrow> string" where
  "str_upper s = concat (map (\<lambda>c. if (of_char c :: nat) = 223 then ''SS'' else [char_upper c]) s)"

fun py_upper :: "json \<Rightarrow> exn + string" where
  "py_upper (JStr s) = Inr (str_upper s)"
| "py_upper _ = Inl (Error ''object has no attribute upper'')"

definition ebind :: "exn + 'a \<Rightarrow> ('a \<Rightarrow> exn + 'b) \<Rightarrow> exn + 'b" where
  "ebind m f = (case m of Inl e \<Rightarrow> Inl e | Inr x \<Rightarrow> f x)"

text \<open>
  What the Amadeus SDK hands back: an object without a \<open>data\<close> attribute, or one whose
  \<open>data\<close> is some JSON value.
\<close>

datatype amadeus_response = NoDataAttr | WithData json

type_synonym amadeus = "(string \<times> json) list \<Rightarrow> amadeus_response reply"

text \<open>\<open>FlightSearchHandler.search_flights\<close>: it catches every exception and awaits Amadeus
  under its own timeout, so it always returns a dictionary.\<close>

type_synonym handler = "(string \<times> json) list \<Rightarrow> (string \<times> json) list"

text \<open>
  Python built-ins and library calls whose behaviour is fixed outside this repository are
  parameters of the model, as is the behaviour of every remote service:
  \<open>py_str\<close> is \<open>str(x)\<close> (also inside f-strings), \<open>py_int\<close> is \<open>int(x)\<close>,
  \<open>per_person price n\<close> is \<open>f"{float(price) / n:.2f}"\<close>, \<open>json_loads\<close> and \<open>json_dumps\<close>
  are the \<open>json\<close> module, \<open>response_json\<close> is aiohttp's \<open>response.json()\<close> on a body,
  \<open>getenv\<close> is \<open>os.getenv\<close>, \<open>now\<close> is \<open>datetime.now().isoformat()\<close>, \<open>uuid4\<close> numbers the
  UUIDs drawn, \<open>workflow_ms\<close> is the measured duration of a workflow, \<open>http_get\<close> and
  \<open>http_post\<close> answer with a status and a body, \<open>new_amadeus\<close> is the SDK's \<open>Client\<close>
  constructor and \<open>new_handler\<close> the constructor of \<open>FlightSearchHandler\<close> (\<open>None\<close> when
  they raise), and \<open>legacy_shape endpoint params data\<close> is the \<open>response\<close> entry that
  \<open>call_api_legacy\<close> builds from the decoded body of a hardcoded endpoint (an exception,
  or \<open>None\<close> when the branch falls through). The instruction text that
  \<open>configure_openai_session\<close> assembles and the tool declarations of
  \<open>get_function_definitions\<close> are constants of a run that nothing below looks into: they
  are \<open>base_instructions\<close> and \<open>function_definitions\<close>.
\<close>

record env =
  py_str :: "json \<Rightarrow> string"
  py_int :: "json \<Rightarrow> exn + int"
  per_person :: "json \<Rightarrow> int \<Rightarrow> exn + string"
  json_loads :: "string \<Rightarrow> exn + json"
  json_dumps :: "json \<Rightarrow> string"
  response_json :: "string \<Rightarrow> exn + json"
  getenv :: "string \<Rightarrow> string option"
  now :: string
  uuid4 :: "nat \<Rightarrow> string"
  workflow_ms :: int
  http_get :: "string \<Rightarrow> (string \<times> string) list \<Rightarrow> (nat \<times> string) reply"
  http_post :: "string \<Rightarrow> (string \<times> string) list \<Rightarrow> json \<Rightarrow> (nat \<times> string) reply"
  new_amadeus :: "string \<Rightarrow> string \<Rightarrow> amadeus option"
  new_handler :: "string \<Rightarrow> string \<Rightarrow> handler option"
  legacy_shape :: "json \<Rightarrow> (string \<times> json) list \<Rightarrow> json \<Rightarrow> exn + json option"
  base_instructions :: string
  function_definitions :: json

text \<open>The calls a capability makes to the outside, logged in order.\<close>

datatype io =
    RagSearch json json
  | HttpGet string "(string \<times> string) list"
  | HttpPost string "(string \<times> string) list" json
  | AmadeusSearch "(string \<times> json) list"
  | HandlerSearch "(string \<times> json) list"

text \<open>\<open>asyncio.wait_for\<close> always completes: with the answer, the provider's exception or
  \<open>TimeoutError\<close>.\<close>

fun wait_for :: "nat \<Rightarrow> 'a reply \<Rightarrow> exn + 'a" where
  "wait_for timeout (Responds t x) = (if t < timeout then Inr x else Inl TimeoutError)"
| "wait_for timeout (Fails t e) = (if t < timeout then Inl e else Inl TimeoutError)"
| "wait_for timeout NeverReturns = Inl TimeoutError"

section \<open>Flight search: \<open>RealtimeAPIProxy.search_flights\<close>\<close>

record flight_query =
  fq_origin :: string
  fq_destination :: string
  fq_departure_date :: json
  fq_return_date :: json
  fq_adults :: int
  fq_children :: int
  fq_infants :: int
  fq_travel_class :: string
  fq_nonstop_only :: json
  fq_max_price :: json
  fq_trip_type :: json

definition extract_flight_query :: "env \<Rightarrow> (string \<times> json) list \<Rightarrow> exn + flight_query" where
  "extract_flight_query E params =
    ebind (py_upper (pget params ''origin'' (JStr ''''))) (\<lambda>origin.
    ebind (py_upper (pget params ''destination'' (JStr ''''))) (\<lambda>destination.
    ebind (py_int E (pget params ''adults'' (JInt 1))) (\<lambda>adults.
    ebind (py_int E (pget params ''children'' (JInt 0))) (\<lambda>children.
    ebind (py_int E (pget params ''infants'' (JInt 0))) (\<lambda>infants.
    ebind (py_upper (pget params ''travel_class'' (JStr ''ECONOMY''))) (\<lambda>travel_class.
    Inr \<lparr> fq_origin = take 3 origin,
          fq_destination = take 3 destination,
          fq_departure_date = pget params ''departure_date'' JNull,
          fq_return_date = pget params ''return_date'' JNull,
          fq_adults = adults,
          fq_children = children,
          fq_infants = infants,
          fq_travel_class = travel_class,
          fq_nonstop_only = pget params ''nonstop_only'' (JBool False),
          fq_max_price = pget params ''max_price'' JNull,
          fq_trip_type = pget params ''trip_type''
             (if py_truthy (pget params ''return_date'' JNull)
              then JStr ''roundtrip'' else JStr ''oneway'') \<rparr>))))))"

definition build_search_params :: "env \<Rightarrow> flight_query \<Rightarrow> exn + (string \<times> json) list" where
  "build_search_params E q =
    (let search_params =
        [(''originLocationCode'', JStr (fq_origin q)),
         (''destinationLocationCode'', JStr (fq_destination q)),
         (''departureDate'', fq_departure_date q),
         (''adults'', JInt (fq_adults q)),
         (''max'', JInt 5)]
        @ (if py_truthy (fq_return_date q) then [(''returnDate'', fq_return_date q)] else [])
        @ (if fq_children q > 0 then [(''children'', JInt (fq_children q))] else [])
        @ (if fq_infants q > 0 then [(''infants'', JInt (fq_infants q))] else [])
        @ (if fq_travel_class q \<noteq> ''ECONOMY''
           then [(''travelClass'', JStr (fq_travel_class q))] else [])
        @ (if py_truthy (fq_nonstop_only q) then [(''nonStop'', JStr ''true'')] else [])
     in if py_truthy (fq_max_price q)
        then ebind (py_int E (fq_max_price q))
               (\<lambda>m. Inr (search_params @ [(''maxPrice'', JInt m)]))
        else Inr search_params)"

text \<open>\<open>departure_date[a:b]\<close> inside the booking link: a string or a list can be sliced.\<close>

fun py_slice :: "env \<Rightarrow> nat \<Rightarrow> nat \<Rightarrow> json \<Rightarrow> exn + string" where
  "py_slice E a b (JStr s) = Inr (take (b - a) (drop a s))"
| "py_slice E a b (JList xs) = Inr (py_str E (JList (take (b - a) (drop a xs))))"
| "py_slice E a b _ = Inl (TypeError ''object is not subscriptable'')"

definition booking_url :: "env \<Rightarrow> flight_query \<Rightarrow> (exn + string) option" where
  "booking_url E q =
    (case getenv E ''TRAVELPAYOUTS_TOKEN'' of
       None \<Rightarrow> None
     | Some token \<Rightarrow>
        if token \<noteq> [] \<and> \<not> prefix ''your_'' token
        then Some
          (ebind (py_slice E 0 4 (fq_departure_date q)) (\<lambda>y.
           ebind (py_slice E 5 7 (fq_departure_date q)) (\<lambda>m.
           ebind (py_slice E 8 10 (fq_departure_date q)) (\<lambda>d.
           Inr ((case getenv E ''AFFILIATE_BASE_URL'' of
                   None \<Rightarrow> ''https://www.aviasales.com'' | Some u \<Rightarrow> u)
                @ ''/search/'' @ fq_origin q @ y @ m @ d @ fq_destination q @ ''1?marker=''
                @ (case getenv E ''TRAVELPAYOUTS_MARKER'' of None \<Rightarrow> [] | Some k \<Rightarrow> k))))))
        else None)"

text \<open>
  The body of the loop over the offers: \<open>None\<close> is a \<open>continue\<close>, taken explicitly or from
  the \<open>except\<close> around the body; \<open>Some\<close> is the \<open>flight_info\<close> appended to \<open>flights\<close>.
\<close>

definition price_per_person :: "env \<Rightarrow> flight_query \<Rightarrow> json \<Rightarrow> json \<Rightarrow> string option" where
  "price_per_person E q currency price =
    (if price \<noteq> JStr ''N/A'' \<and> fq_adults q + fq_children q > 1
     then (case per_person E price (fq_adults q + fq_children q) of
             Inr s \<Rightarrow> Some (py_str E currency @ '' '' @ s)
           | Inl (ValueError m) \<Rightarrow> Some (py_str E currency @ '' '' @ py_str E price)
           | Inl (TypeError m) \<Rightarrow> Some (py_str E currency @ '' '' @ py_str E price)
           | Inl e \<Rightarrow> None)
     else Some (py_str E currency @ '' '' @ py_str E price))"

fun dict_or_empty :: "json \<Rightarrow> (string \<times> json) list" where
  "dict_or_empty (JObj kvs) = kvs"
| "dict_or_empty _ = []"

fun at_or_na :: "json \<Rightarrow> json" where
  "at_or_na (JObj kvs) = pget kvs ''at'' (JStr ''N/A'')"
| "at_or_na _ = JStr ''N/A''"

definition process_offer :: "env \<Rightarrow> flight_query \<Rightarrow> json \<Rightarrow> json option" where
  "process_offer E q offer =
    (case offer of
       JObj ofields \<Rightarrow>
        (let price_info = pget ofields ''price'' (JObj []);
             price = (case price_info of JObj p \<Rightarrow> pget p ''total'' (JStr ''N/A'')
                      | _ \<Rightarrow> JStr ''N/A'');
             currency = (case price_info of JObj p \<Rightarrow> pget p ''currency'' (JStr ''USD'')
                         | _ \<Rightarrow> JStr ''USD'')
         in case pget ofields ''itineraries'' (JList []) of
              JList (itinerary # _) \<Rightarrow>
               (let first_itinerary = dict_or_empty itinerary
                in case pget first_itinerary ''segments'' (JList []) of
                     JList (segment # segments) \<Rightarrow>
                      (let first_segment = dict_or_empty segment;
                           flight_info =
                             [(''airline'', pget first_segment ''carrierCode'' (JStr ''Unknown'')),
                              (''price'', JStr (py_str E currency @ '' '' @ py_str E price))]
                       in case price_per_person E q currency price of
                            None \<Rightarrow> None
                          | Some ppp \<Rightarrow>
                             (let info = flight_info @
                                [(''price_per_person'', JStr ppp),
                                 (''departure'',
                                    at_or_na (pget first_segment ''departure'' (JObj []))),
                                 (''arrival'',
                                    at_or_na (pget first_segment ''arrival'' (JObj []))),
                                 (''duration'', pget first_itinerary ''duration'' (JStr ''N/A'')),
                                 (''stops'', JInt (int (length segments))),
                                 (''travel_class'', JStr (fq_travel_class q)),
                                 (''trip_type'', fq_trip_type q)]
                              in case booking_url E q of
                                   None \<Rightarrow> Some (JObj info)
                                 | Some (Inl e) \<Rightarrow> None
                                 | Some (Inr u) \<Rightarrow>
                                     Some (JObj (info @ [(''booking_url'', JStr u)]))))
                   | _ \<Rightarrow> None)
            | _ \<Rightarrow> None)
     | _ \<Rightarrow> None)"

text \<open>The loop \<open>for idx, offer in enumerate(response.data[:5])\<close>.\<close>

fun offers_loop :: "(json \<Rightarrow> json option) \<Rightarrow> json list \<Rightarrow> json list \<Rightarrow> json list" where
  "offers_loop body [] flights = flights"
| "offers_loop body (offer # offers) flights =
    (case body offer of
       None \<Rightarrow> offers_loop body offers flights
     | Some flight_info \<Rightarrow> offers_loop body offers (flights @ [flight_info]))"

text \<open>\<open>response.data[:5]\<close>: a list or a string can be sliced (the characters of a string
  are no dictionaries, so the loop skips them all).\<close>

fun first_five :: "json \<Rightarrow> exn + json list" where
  "first_five (JList xs) = Inr (take 5 xs)"
| "first_five (JStr s) = Inr (map (\<lambda>c. JStr [c]) (take 5 s))"
| "first_five _ = Inl (TypeError ''object is not subscriptable'')"

definition flight_error :: "string \<Rightarrow> json" where
  "flight_error msg =
    JObj [(''endpoint'', JStr ''flight_search''), (''error'', JStr msg), (''status'', JStr ''error'')]"

definition flight_timeout_message :: string where
  "flight_timeout_message = ''Flight search is taking longer than expected. Please try again.''"

definition passengers_text :: "flight_query \<Rightarrow> string" where
  "passengers_text q =
    str_of_int (fq_adults q) @ '' adults''
    @ (if fq_children q \<noteq> 0 then '', '' @ str_of_int (fq_children q) @ '' children'' else [])
    @ (if fq_infants q \<noteq> 0 then '', '' @ str_of_int (fq_infants q) @ '' infants'' else [])"

definition no_flights_found :: "flight_query \<Rightarrow> json" where
  "no_flights_found q =
    JObj [(''endpoint'', JStr ''flight_search''),
          (''method'', JStr ''POST''),
          (''response'',
             JObj [(''origin'', JStr (fq_origin q)),
                   (''destination'', JStr (fq_destination q)),
                   (''departure_date'', fq_departure_date q),
                   (''return_date'', fq_return_date q),
                   (''passengers'', JStr (passengers_text q)),
                   (''travel_class'', JStr (fq_travel_class q)),
                   (''flights'', JList []),
                   (''message'', JStr ''No flights found for the specified route and date.'')]),
          (''status'', JStr ''success'')]"

definition flights_found :: "env \<Rightarrow> flight_query \<Rightarrow> json list \<Rightarrow> json" where
  "flights_found E q flights =
    JObj [(''endpoint'', JStr ''flight_search''),
          (''method'', JStr ''POST''),
          (''response'',
             JObj [(''origin'', JStr (fq_origin q)),
                   (''destination'', JStr (fq_destination q)),
                   (''departure_date'', fq_departure_date q),
                   (''return_date'', fq_return_date q),
                   (''flights'', JList flights),
                   (''total_results'', JInt (int (length flights))),
                   (''passengers'',
                      JObj [(''adults'', JInt (fq_adults q)),
                            (''children'', JInt (fq_children q)),
                            (''infants'', JInt (fq_infants q)),
                            (''total'', JInt (fq_adults q + fq_children q + fq_infants q))]),
                   (''search_criteria'',
                      JObj [(''travel_class'', JStr (fq_travel_class q)),
                            (''nonstop_only'', fq_nonstop_only q),
                            (''max_price'', fq_max_price q),
                            (''trip_type'', fq_trip_type q)]),
                   (''message'',
                      JStr (''Found '' @ str_of_nat (length flights) @ '' ''
                            @ str_lower (fq_travel_class q) @ '' ''
                            @ (if py_truthy (fq_nonstop_only q) then ''non-stop '' else [])
                            @ ''flights from '' @ fq_origin q @ '' to '' @ fq_destination q
                            @ '' for ''
                            @ str_of_int (fq_adults q + fq_children q + fq_infants q)
                            @ '' passenger(s)''))]),
          (''timestamp'', JStr (now E)),
          (''status'', JStr ''success'')]"

text \<open>
  The built-in path of \<open>search_flights\<close> (no enhanced handler, an Amadeus client present):
  the requests sent to Amadeus and the result. Every exception ends in an error result.
\<close>

definition search_flights_builtin ::
  "env \<Rightarrow> amadeus \<Rightarrow> (string \<times> json) list \<Rightarrow> io list \<times> json" where
  "search_flights_builtin E client params =
    (case extract_flight_query E params of
       Inl e \<Rightarrow> ([], flight_error (''An error occurred during flight search: '' @ exn_str e))
     | Inr q \<Rightarrow>
        if fq_origin q = [] \<or> fq_destination q = [] \<or> \<not> py_truthy (fq_departure_date q)
        then ([], flight_error
                ''Missing required parameters: origin, destination, and departure_date'')
        else
          (case build_search_params E q of
             Inl e \<Rightarrow> ([], flight_error (''An error occurred during flight search: '' @ exn_str e))
           | Inr search_params \<Rightarrow>
              (case wait_for 20 (client search_params) of
                 Inl TimeoutError \<Rightarrow>
                   ([AmadeusSearch search_params], flight_error flight_timeout_message)
               | Inl e \<Rightarrow>
                   ([AmadeusSearch search_params],
                    flight_error (''Failed to search flights: '' @ exn_str e))
               | Inr NoDataAttr \<Rightarrow>
                   ([AmadeusSearch search_params],
                    flight_error ''Invalid response from flight search API'')
               | Inr (WithData data) \<Rightarrow>
                   if \<not> py_truthy data
                   then ([AmadeusSearch search_params], no_flights_found q)
                   else
                     (case first_five data of
                        Inl e \<Rightarrow>
                          ([AmadeusSearch search_params],
                           flight_error (''An error occurred during flight search: '' @ exn_str e))
                      | Inr offers \<Rightarrow>
                          ([AmadeusSearch search_params],
                           flights_found E q (offers_loop (process_offer E q) offers []))))))"

definition handler_success :: "env \<Rightarrow> (string \<times> json) list \<Rightarrow> json" where
  "handler_success E result =
    JObj [(''endpoint'', JStr ''amadeus_flight_search''),
          (''method'', JStr ''POST''),
          (''response'', JObj result),
          (''timestamp'', JStr (now E)),
          (''status'', JStr ''success'')]"

definition handler_error :: "env \<Rightarrow> (string \<times> json) list \<Rightarrow> json" where
  "handler_error E result =
    JObj [(''endpoint'', JStr ''amadeus_flight_search''),
          (''error'', pget result ''message'' (JStr ''Flight search failed'')),
          (''error_code'', pget result ''error_code'' (JStr ''UNKNOWN'')),
          (''timestamp'', JStr (now E)),
          (''status'', JStr ''error'')]"

text \<open>
  \<open>search_flights\<close>: the enhanced handler when there is one (\<open>result['status']\<close> raises
  when the handler's dictionary has no status), else the built-in path.
\<close>

definition search_flights ::
  "env \<Rightarrow> handler option \<Rightarrow> amadeus option \<Rightarrow> (string \<times> json) list \<Rightarrow> io list \<times> json awaited" where
  "search_flights E flight_handler amadeus_client params =
    (case flight_handler of
       Some h \<Rightarrow>
        (case map_of (h params) ''status'' of
           None \<Rightarrow> ([HandlerSearch params], Raised (Error ''status''))
         | Some s \<Rightarrow>
            if s = JStr ''success''
            then ([HandlerSearch params], Done (handler_success E (h params)))
            else ([HandlerSearch params], Done (handler_error E (h params))))
     | None \<Rightarrow>
        (case amadeus_client of
           None \<Rightarrow>
             ([], Done (flight_error
                ''Flight search not configured. Please set up Amadeus API credentials.''))
         | Some client \<Rightarrow>
             (let (ios, r) = search_flights_builtin E client params in (ios, Done r))))"

text \<open>The \<open>flights\<close> list of a flight search result, when it has one.\<close>

definition flights_of :: "json \<Rightarrow> json list option" where
  "flights_of r =
    (case jget r ''response'' of
       Some resp \<Rightarrow> (case jget resp ''flights'' of Some (JList fs) \<Rightarrow> Some fs | _ \<Rightarrow> None)
     | None \<Rightarrow> None)"

section \<open>The proxy: \<open>RealtimeAPIProxy\<close>\<close>

text \<open>
  An entry of \<open>api_config['endpoints']\<close>, with the defaults of the \<open>api.get(..., default)\<close>
  calls already applied (\<open>active\<close> defaults to true, \<open>auth_type\<close> to \<open>none\<close>, \<open>auth_param\<close>
  to \<open>Authorization\<close>, the credentials to the empty string).
\<close>

record api_endpoint =
  ep_id :: string
  ep_active :: bool
  ep_url :: "string option"
  ep_params :: "string list option"
  ep_headers :: "(string \<times> string) list"
  ep_search_engine_id :: "string option"
  ep_api_key :: "string option"
  ep_auth_type :: string
  ep_auth_param :: string
  ep_body_template :: "(string \<times> json) list option"
  ep_client_id :: string
  ep_client_secret :: string

text \<open>
  The fields of the one \<open>proxy\<close> object of the process, followed by what the process has
  done so far: the frames sent on each upstream socket and on each client socket, the
  sockets closed (one entry for each \<open>close()\<close>), the calls made to the outside, the
  capabilities invoked by the dispatcher and the number of UUIDs drawn. Sockets are numbered.
\<close>

record server =
  api_key :: "string option"
  openai_ws :: "nat option"
  client_connections :: "(string \<times> nat) list"
  rag_store :: rag_store
  api_config :: "api_endpoint list"
  amadeus_client :: "amadeus option"
  flight_handler :: "handler option"
  amadeus_credentials :: "(string \<times> string) list"
  upstream_frames :: "(nat \<times> json) list"
  client_frames :: "(nat \<times> json) list"
  closed_upstream :: "nat list"
  closed_clients :: "nat list"
  io_log :: "io list"
  invocations :: "(json \<times> json) list"
  uuids_drawn :: nat

definition log_io :: "io list \<Rightarrow> server \<Rightarrow> server" where
  "log_io ios st = st\<lparr>io_log := io_log st @ ios\<rparr>"

text \<open>\<open>await self.openai_ws.send(...)\<close>: raises on \<open>None\<close> and on a closed socket.\<close>

definition upstream_send :: "server \<Rightarrow> json \<Rightarrow> exn + server" where
  "upstream_send st msg =
    (case openai_ws st of
       None \<Rightarrow> Inl (Error ''NoneType object has no attribute send'')
     | Some h \<Rightarrow>
        if h \<in> set (closed_upstream st) then Inl (Error ''connection closed'')
        else Inr (st\<lparr>upstream_frames := upstream_frames st @ [(h, msg)]\<rparr>))"

text \<open>\<open>await websocket.send_json(...)\<close> on a client socket.\<close>

definition ws_send :: "server \<Rightarrow> nat \<Rightarrow> json \<Rightarrow> exn + server" where
  "ws_send st w msg =
    (if w \<in> set (closed_clients st) then Inl (Error ''websocket is not connected'')
     else Inr (st\<lparr>client_frames := client_frames st @ [(w, msg)]\<rparr>))"

text \<open>
  \<open>send_to_client\<close>. Nothing is done for a session that is not registered or whose socket
  is not connected. For a connected one the code calls
  \<open>client_ws.send(json.dumps(message))\<close>: \<open>WebSocket.send\<close> of Starlette takes an ASGI
  message and starts by reading \<open>message["type"]\<close>, which raises \<open>TypeError\<close> on a string
  (the wording is that of Python 3.11). So no frame reaches the client this way. A session
  id that cannot be a dictionary key raises at the lookup.
\<close>

definition str_index_error :: exn where
  "str_index_error = TypeError (''string indices must be integers, not 'str'' @ [CHR 0x27])"

definition send_to_client :: "server \<Rightarrow> json \<Rightarrow> json \<Rightarrow> exn + server" where
  "send_to_client st session_id message =
    (case session_id of
       JStr sid \<Rightarrow>
        (case map_of (client_connections st) sid of
           None \<Rightarrow> Inr st
         | Some client_ws \<Rightarrow>
            if client_ws \<in> set (closed_clients st) then Inr st
            else Inl str_index_error)
     | _ \<Rightarrow> if hashable session_id then Inr st else Inl (TypeError ''unhashable type''))"

section \<open>External API bridge: \<open>call_api\<close> and \<open>call_api_legacy\<close>\<close>

text \<open>\<open>s.replace(old, new)\<close>: every non-overlapping occurrence, from the left.\<close>

fun replace_aux :: "string \<Rightarrow> string \<Rightarrow> nat \<Rightarrow> string \<Rightarrow> string" where
  "replace_aux old new skip [] = []"
| "replace_aux old new skip (c # cs) =
    (if skip > 0 then replace_aux old new (skip - 1) cs
     else if prefix old (c # cs) then new @ replace_aux old new (length old - 1) cs
     else c # replace_aux old new 0 cs)"

definition str_replace :: "string \<Rightarrow> string \<Rightarrow> string \<Rightarrow> string" where
  "str_replace old new s =
    (if old = [] then concat (map (\<lambda>c. new @ [c]) s) @ new else replace_aux old new 0 s)"

text \<open>\<open>d[k] = v\<close> on a dictionary.\<close>

definition dict_set :: "('k \<times> 'v) list \<Rightarrow> 'k \<Rightarrow> 'v \<Rightarrow> ('k \<times> 'v) list" where
  "dict_set d k v =
    (if k \<in> fst ` set d then map (\<lambda>(k', v'). if k' = k then (k', v) else (k', v')) d
     else d @ [(k, v)])"

text \<open>The first active configured endpoint with the given id.\<close>

fun find_endpoint :: "api_endpoint list \<Rightarrow> json \<Rightarrow> api_endpoint option" where
  "find_endpoint [] endpoint = None"
| "find_endpoint (api # apis) endpoint =
    (if JStr (ep_id api) = endpoint \<and> ep_active api then Some api
     else find_endpoint apis endpoint)"

definition api_error :: "env \<Rightarrow> json \<Rightarrow> json \<Rightarrow> string \<Rightarrow> json" where
  "api_error E endpoint method msg =
    JObj [(''endpoint'', endpoint), (''method'', method), (''error'', JStr msg),
          (''timestamp'', JStr (now E)), (''status'', JStr ''error'')]"

definition api_error_text :: "env \<Rightarrow> json \<Rightarrow> json \<Rightarrow> string \<Rightarrow> string \<Rightarrow> json" where
  "api_error_text E endpoint method msg response_text =
    JObj [(''endpoint'', endpoint), (''method'', method), (''error'', JStr msg),
          (''response_text'', JStr (take 1000 response_text)),
          (''timestamp'', JStr (now E)), (''status'', JStr ''error'')]"

definition api_success :: "env \<Rightarrow> json \<Rightarrow> json \<Rightarrow> json \<Rightarrow> json" where
  "api_success E endpoint method data =
    JObj [(''endpoint'', endpoint), (''method'', method), (''response'', data),
          (''timestamp'', JStr (now E)), (''status'', JStr ''success'')]"

definition dog_image :: "env \<Rightarrow> json \<Rightarrow> json \<Rightarrow> json \<Rightarrow> json \<Rightarrow> json" where
  "dog_image E endpoint method image_url status =
    JObj [(''endpoint'', endpoint), (''method'', method),
          (''response'',
             JObj [(''image_url'', image_url), (''status'', status),
                   (''description'', JStr ''Here's a random dog picture!'')]),
          (''timestamp'', JStr (now E)), (''status'', JStr ''success''),
          (''response_type'', JStr ''image'')]"

subsection \<open>The hardcoded endpoints\<close>

definition unknown_endpoint :: "env \<Rightarrow> json \<Rightarrow> json \<Rightarrow> json" where
  "unknown_endpoint E endpoint method =
    api_error E endpoint method (''Unknown endpoint: '' @ py_str E endpoint)"

fun py_replace_space :: "json \<Rightarrow> exn + string" where
  "py_replace_space (JStr s) = Inr (str_replace '' '' ''+'' s)"
| "py_replace_space _ = Inl (Error ''object has no attribute replace'')"

text \<open>The request of a hardcoded endpoint: its URL and headers, an exception raised while
  building them, or \<open>None\<close> for any other endpoint name.\<close>

definition legacy_request ::
  "env \<Rightarrow> json \<Rightarrow> (string \<times> json) list \<Rightarrow> (exn + string \<times> (string \<times> string) list) option" where
  "legacy_request E endpoint params =
    (if endpoint = JStr ''weather''
     then Some (ebind (py_replace_space (pget params ''location'' (JStr ''New York'')))
                  (\<lambda>location. Inr (''https://wttr.in/'' @ location @ ''?format=j1'', [])))
     else if endpoint = JStr ''dad_jokes''
     then Some (Inr (''https://icanhazdadjoke.com/'', [(''Accept'', ''application/json'')]))
     else if endpoint = JStr ''fun_fact'' \<or> endpoint = JStr ''fact''
     then Some (Inr (''https://uselessfacts.jsph.pl/api/v2/facts/random'', []))
     else if endpoint = JStr ''motivational_quote'' \<or> endpoint = JStr ''inspiration''
     then Some (Inr (''https://api.quotable.io/quotes/random'', []))
     else if endpoint = JStr ''random_advice'' \<or> endpoint = JStr ''advice''
     then Some (Inr (''https://api.adviceslip.com/advice'', []))
     else if endpoint = JStr ''bored_activity'' \<or> endpoint = JStr ''activity''
     then Some (Inr (''https://boredapi.com/api/activity'', []))
     else if endpoint = JStr ''number_fact'' \<or> endpoint = JStr ''number''
     then Some (Inr (''http://numbersapi.com/'' @ py_str E (pget params ''number'' (JInt 42))
                     @ ''?json'', []))
     else if endpoint = JStr ''dog'' \<or> endpoint = JStr ''dog_fact''
     then Some (Inr (''https://dog.ceo/api/breeds/image/random'', []))
     else if endpoint = JStr ''affirmation''
     then Some (Inr (''https://www.affirmations.dev/'', []))
     else if endpoint = JStr ''kanye''
     then Some (Inr (''https://api.kanye.rest/'', []))
     else if endpoint = JStr ''trivia''
     then Some (Inr (''https://the-trivia-api.com/v2/questions?limit=1'', []))
     else None)"

text \<open>
  \<open>call_api_legacy\<close>: one GET for a hardcoded endpoint. Only a 200 answer returns a
  success; any other status falls through to the \<open>Unknown endpoint\<close> result, and every
  exception becomes an error result. There is no timeout around the request.
\<close>

definition call_api_legacy ::
  "env \<Rightarrow> json \<Rightarrow> json \<Rightarrow> (string \<times> json) list \<Rightarrow> io list \<times> json awaited" where
  "call_api_legacy E endpoint method params =
    (case legacy_request E endpoint params of
       None \<Rightarrow> ([], Done (unknown_endpoint E endpoint method))
     | Some (Inl e) \<Rightarrow> ([], Done (api_error E endpoint method (exn_str e)))
     | Some (Inr (url, headers)) \<Rightarrow>
        (case await (http_get E url headers) of
           Pending \<Rightarrow> ([HttpGet url headers], Pending)
         | Raised e \<Rightarrow> ([HttpGet url headers], Done (api_error E endpoint method (exn_str e)))
         | Done (status, body) \<Rightarrow>
            if status = 200
            then (case ebind (response_json E body)
                         (\<lambda>data. legacy_shape E endpoint params data) of
                    Inl e \<Rightarrow> ([HttpGet url headers], Done (api_error E endpoint method (exn_str e)))
                  | Inr None \<Rightarrow> ([HttpGet url headers], Done (unknown_endpoint E endpoint method))
                  | Inr (Some shaped) \<Rightarrow>
                      ([HttpGet url headers], Done (api_success E endpoint method shaped)))
            else ([HttpGet url headers], Done (unknown_endpoint E endpoint method))))"

subsection \<open>The configured endpoints\<close>

text \<open>The loop replacing \<open>{param}\<close> in the URL for each configured parameter that the
  call supplies.\<close>

fun substitute_params :: "env \<Rightarrow> string list \<Rightarrow> (string \<times> json) list \<Rightarrow> string \<Rightarrow> string" where
  "substitute_params E [] params url = url"
| "substitute_params E (param # rest) params url =
    substitute_params E rest params
      (case map_of params param of
         None \<Rightarrow> url
       | Some v \<Rightarrow> str_replace (''{'' @ param @ ''}'') (py_str E v) url)"

definition add_query :: "string \<Rightarrow> string \<Rightarrow> string" where
  "add_query url q = url @ (if CHR ''?'' \<in> set url then ''&'' else ''?'') @ q"

definition is_image_search :: "(string \<times> json) list \<Rightarrow> bool" where
  "is_image_search params =
    (map_of params ''searchType'' = Some (JStr ''image'')
     \<or> map_of params ''type'' = Some (JStr ''image''))"

text \<open>The URL and headers of the request, or the exception raised while building them
  (\<open>api_config['url']\<close> raises when there is no URL).\<close>

definition build_request ::
  "env \<Rightarrow> api_endpoint \<Rightarrow> json \<Rightarrow> (string \<times> json) list \<Rightarrow> exn + string \<times> (string \<times> string) list" where
  "build_request E cfg endpoint params =
    (case ep_url cfg of
       None \<Rightarrow> Inl (Error ''url'')
     | Some url0 \<Rightarrow>
        (let url1 = (case ep_params cfg of
                       None \<Rightarrow> url0
                     | Some ps \<Rightarrow> substitute_params E ps params url0);
             url2 = (case ep_search_engine_id cfg of
                       None \<Rightarrow> url1
                     | Some cx \<Rightarrow>
                        if endpoint = JStr ''google_custom_search'' \<and> cx \<noteq> []
                        then (let u = (if \<not> py_truthy (pget params ''cx'' JNull)
                                       then str_replace ''{cx}'' cx url1 else url1)
                              in if is_image_search params then add_query u ''searchType=image''
                                 else u)
                        else url1);
             key = (case ep_api_key cfg of None \<Rightarrow> [] | Some k \<Rightarrow> k);
             headers = (if key \<noteq> [] \<and> ep_auth_type cfg = ''header''
                        then dict_set (ep_headers cfg) (ep_auth_param cfg)
                               (if str_lower (ep_auth_param cfg) = ''authorization''
                                then ''Bearer '' @ key else key)
                        else ep_headers cfg);
             url3 = (if key \<noteq> [] \<and> ep_auth_type cfg = ''query''
                     then add_query url2 (ep_auth_param cfg @ ''='' @ key) else url2)
         in Inr (url3, headers)))"

text \<open>\<open>'message' in data\<close> and \<open>data['message']\<close> on a decoded body.\<close>

fun has_message :: "json \<Rightarrow> exn + bool" where
  "has_message (JObj kvs) = Inr (''message'' \<in> fst ` set kvs)"
| "has_message (JList xs) = Inr (JStr ''message'' \<in> set xs)"
| "has_message (JStr s) = Inr (sublist ''message'' s)"
| "has_message _ = Inl (TypeError ''argument is not iterable'')"

fun message_of :: "json \<Rightarrow> exn + json" where
  "message_of (JObj kvs) =
    (case map_of kvs ''message'' of None \<Rightarrow> Inl (Error ''message'') | Some v \<Rightarrow> Inr v)"
| "message_of _ = Inl (TypeError ''indices must be integers'')"

fun status_of :: "json \<Rightarrow> exn + json" where
  "status_of (JObj kvs) = Inr (pget kvs ''status'' (JStr ''success''))"
| "status_of _ = Inl (Error ''object has no attribute get'')"

text \<open>What the GET branch returns for a 200 answer with a body that decodes.\<close>

definition shape_get_200 :: "env \<Rightarrow> json \<Rightarrow> json \<Rightarrow> json \<Rightarrow> exn + json" where
  "shape_get_200 E endpoint method data =
    (if endpoint = JStr ''dog''
     then ebind (has_message data) (\<lambda>present.
            if present
            then ebind (message_of data) (\<lambda>image_url.
                 ebind (status_of data) (\<lambda>status.
                 Inr (dog_image E endpoint method image_url status)))
            else Inr (api_success E endpoint method data))
     else Inr (api_success E endpoint method data))"

text \<open>The request body of a POST: the template with each \<open>"{name}"\<close> value replaced by
  the parameter of that name when the call supplies it, or the parameters themselves.\<close>

definition fill_template :: "(string \<times> json) list \<Rightarrow> (string \<times> json) list \<Rightarrow> (string \<times> json) list" where
  "fill_template template params =
    map (\<lambda>(key, value).
          (case value of
             JStr v \<Rightarrow>
              if prefix ''{'' v \<and> suffix ''}'' v
              then (case map_of params (butlast (tl v)) of
                      None \<Rightarrow> (key, value) | Some p \<Rightarrow> (key, p))
              else (key, value)
           | _ \<Rightarrow> (key, value))) template"

definition post_body :: "api_endpoint \<Rightarrow> (string \<times> json) list \<Rightarrow> json" where
  "post_body cfg params =
    (case ep_body_template cfg of
       None \<Rightarrow> JObj params
     | Some template \<Rightarrow> if template = [] then JObj params
                        else JObj (fill_template template params))"

text \<open>
  \<open>initialize_amadeus\<close>: missing credentials are taken from the stored ones; the client is
  built only from credentials that are present and no placeholders.
\<close>

definition initialize_amadeus :: "env \<Rightarrow> server \<Rightarrow> string \<Rightarrow> string \<Rightarrow> server \<times> amadeus option" where
  "initialize_amadeus E st client_id client_secret =
    (let cid = (if client_id = [] then map_of (amadeus_credentials st) ''client_id''
                else Some client_id);
         secret = (if client_secret = [] then map_of (amadeus_credentials st) ''client_secret''
                   else Some client_secret)
     in case (cid, secret) of
          (Some c, Some s) \<Rightarrow>
            if c \<noteq> [] \<and> s \<noteq> [] \<and> \<not> prefix ''your_'' c
            then (case new_amadeus E c s of
                    None \<Rightarrow> (st, None)
                  | Some a \<Rightarrow>
                     (st\<lparr>amadeus_credentials :=
                          dict_set (dict_set (amadeus_credentials st) ''client_id'' c)
                            ''client_secret'' s\<rparr>, Some a))
            else (st, None)
        | _ \<Rightarrow> (st, None))"

text \<open>The flight branch of \<open>call_api\<close>: the client and the enhanced handler are created on
  first use from the credentials of the endpoint's configuration.\<close>

definition ensure_flight_clients :: "env \<Rightarrow> server \<Rightarrow> api_endpoint \<Rightarrow> server" where
  "ensure_flight_clients E st cfg =
    (if amadeus_client st = None \<and> ep_client_id cfg \<noteq> [] \<and> ep_client_secret cfg \<noteq> []
     then (let (st1, a) = initialize_amadeus E st (ep_client_id cfg) (ep_client_secret cfg);
               st2 = st1\<lparr>amadeus_client := a\<rparr>
           in if flight_handler st2 = None
              then (case new_handler E (ep_client_id cfg) (ep_client_secret cfg) of
                      None \<Rightarrow> st2
                    | Some h \<Rightarrow> st2\<lparr>flight_handler := Some h\<rparr>)
              else st2)
     else st)"

fun params_dict :: "json \<Rightarrow> (string \<times> json) list" where
  "params_dict (JObj kvs) = kvs"
| "params_dict _ = []"

text \<open>
  \<open>call_api\<close>. An endpoint that is not configured goes to the hardcoded ones; the flight
  endpoint goes to \<open>search_flights\<close>; a GET returns a result for every answer; a POST
  returns one for a 200 answer only, and any other POST answer, like any other method,
  ends in \<open>call_api_legacy\<close>. No request is made under a timeout.
\<close>

definition call_api :: "env \<Rightarrow> server \<Rightarrow> json \<Rightarrow> json \<Rightarrow> json \<Rightarrow> server \<times> json awaited" where
  "call_api E st endpoint method params0 =
    (let params = params_dict params0 in
     case find_endpoint (api_config st) endpoint of
       None \<Rightarrow>
        (let (ios, r) = call_api_legacy E endpoint method params in (log_io ios st, r))
     | Some cfg \<Rightarrow>
        if endpoint = JStr ''amadeus_flight_search''
        then (let st1 = ensure_flight_clients E st cfg;
                  (ios, r) = search_flights E (flight_handler st1) (amadeus_client st1) params
              in (log_io ios st1, r))
        else
          (case build_request E cfg endpoint params of
             Inl e \<Rightarrow> (st, Done (api_error E endpoint method (exn_str e)))
           | Inr (url, headers) \<Rightarrow>
              (case py_upper method of
                 Inl e \<Rightarrow> (st, Done (api_error E endpoint method (exn_str e)))
               | Inr m \<Rightarrow>
                  if m = ''GET''
                  then
                    (case await (http_get E url headers) of
                       Pending \<Rightarrow> (log_io [HttpGet url headers] st, Pending)
                     | Raised e \<Rightarrow>
                        (log_io [HttpGet url headers] st,
                         Done (api_error E endpoint method (exn_str e)))
                     | Done (status, response_text) \<Rightarrow>
                        if status = 200
                        then
                          (case json_loads E response_text of
                             Inl e \<Rightarrow>
                              (log_io [HttpGet url headers] st,
                               Done (api_error_text E endpoint method
                                       (''Invalid JSON response: '' @ exn_str e) response_text))
                           | Inr data \<Rightarrow>
                              (case shape_get_200 E endpoint method data of
                                 Inl e \<Rightarrow>
                                  (log_io [HttpGet url headers] st,
                                   Done (api_error E endpoint method (exn_str e)))
                               | Inr r \<Rightarrow> (log_io [HttpGet url headers] st, Done r)))
                        else
                          (log_io [HttpGet url headers] st,
                           Done (api_error_text E endpoint method
                                   (''API returned status '' @ str_of_nat status) response_text)))
                  else if m = ''POST''
                  then
                    (let body = post_body cfg params in
                     case await (http_post E url headers body) of
                       Pending \<Rightarrow> (log_io [HttpPost url headers body] st, Pending)
                     | Raised e \<Rightarrow>
                        (log_io [HttpPost url headers body] st,
                         Done (api_error E endpoint method (exn_str e)))
                     | Done (status, response_text) \<Rightarrow>
                        if status = 200
                        then
                          (case response_json E response_text of
                             Inl e \<Rightarrow>
                              (log_io [HttpPost url headers body] st,
                               Done (api_error E endpoint method (exn_str e)))
                           | Inr data \<Rightarrow>
                              (log_io [HttpPost url headers body] st,
                               Done (api_success E endpoint method data)))
                        else
                          (let (ios, r) = call_api_legacy E endpoint method params
                           in (log_io (HttpPost url headers body # ios) st, r)))
                  else
                    (let (ios, r) = call_api_legacy E endpoint method params
                     in (log_io ios st, r)))))"

section \<open>Function-call dispatch: \<open>handle_function_call\<close>\<close>

definition image_envelope :: "env \<Rightarrow> json \<Rightarrow> (string \<times> json) list \<Rightarrow> json \<Rightarrow> json" where
  "image_envelope E endpoint response image_url =
    JObj [(''type'', JStr ''image''),
          (''url'', image_url),
          (''description'', pget response ''description'' (JStr ''Image retrieved successfully'')),
          (''note'',
             JStr (''I've retrieved an image from '' @ py_str E endpoint
                   @ ''. The image shows: ''
                   @ py_str E (pget response ''description'' (JStr ''A picture''))
                   @ ''. The image URL is: '' @ py_str E image_url))]"

text \<open>A result that is a string is decoded (or wrapped when it does not decode).\<close>

definition ensure_dict :: "env \<Rightarrow> json \<Rightarrow> json" where
  "ensure_dict E result =
    (case result of
       JStr s \<Rightarrow> (case json_loads E s of Inr v \<Rightarrow> v | Inl e \<Rightarrow> JObj [(''response'', result)])
     | _ \<Rightarrow> result)"

text \<open>The output handed upstream for a \<open>call_external_api\<close> result: the image envelope
  for a result flagged \<open>response_type == "image"\<close> that carries an image URL, else the
  result itself.\<close>

definition result_output_of :: "env \<Rightarrow> json \<Rightarrow> json \<Rightarrow> exn + json" where
  "result_output_of E endpoint result =
    (case result of
       JObj r \<Rightarrow>
        if map_of r ''response_type'' = Some (JStr ''image'')
        then (case pget r ''response'' (JObj []) of
                JObj response \<Rightarrow>
                  if py_truthy (pget response ''image_url'' JNull)
                  then Inr (image_envelope E endpoint response (pget response ''image_url'' JNull))
                  else Inr result
              | _ \<Rightarrow> Inl (Error ''object has no attribute get''))
        else Inr result
     | _ \<Rightarrow> Inr result)"

definition known_capabilities :: "json list" where
  "known_capabilities =
    [JStr ''search_knowledge_base'', JStr ''execute_workflow'', JStr ''call_external_api'']"

definition log_invocation :: "json \<Rightarrow> json \<Rightarrow> server \<Rightarrow> server" where
  "log_invocation function_name arguments st =
    st\<lparr>invocations := invocations st @ [(function_name, arguments)]\<rparr>"

text \<open>
  The \<open>if\<close>/\<open>elif\<close> chain of \<open>handle_function_call\<close>: the result and the value of the
  local variable \<open>result_output\<close>. Only the \<open>call_external_api\<close> branch and the final
  \<open>else\<close> (an unknown function name) assign \<open>result_output\<close>; after the other two
  branches it is unbound, which is \<open>None\<close> here. \<open>arguments.get\<close> raises when the
  arguments are no dictionary; an unknown function name gives the empty result without
  touching the arguments.
\<close>

definition invoke_capability ::
  "env \<Rightarrow> server \<Rightarrow> json \<Rightarrow> json \<Rightarrow> server \<times> (json \<times> json option) awaited" where
  "invoke_capability E st function_name arguments =
    (if function_name \<notin> set known_capabilities then (st, Done (JObj [], Some (JObj [])))
     else
       (case arguments of
          JObj args \<Rightarrow>
           if function_name = JStr ''search_knowledge_base''
           then
             (let (searches, r) = search_rag (rag_store st) (pget args ''query'' (JStr ''''))
                                     (pget args ''top_k'' (JInt 5));
                  st1 = log_io (map (\<lambda>(q, k). RagSearch q k) searches)
                          (log_invocation function_name arguments st)
              in case r of
                   Done result \<Rightarrow> (st1, Done (result, None))
                 | Raised e \<Rightarrow> (st1, Raised e)
                 | Pending \<Rightarrow> (st1, Pending))
           else if function_name = JStr ''execute_workflow''
           then
             (let st1 = (log_invocation function_name arguments st)
                           \<lparr>uuids_drawn := Suc (uuids_drawn st)\<rparr>
              in case execute_workflow (uuid4 E (uuids_drawn st)) (workflow_ms E)
                        (pget args ''workflow_type'' JNull) (pget args ''parameters'' (JObj [])) of
                   Inl e \<Rightarrow> (st1, Raised e)
                 | Inr result \<Rightarrow> (st1, Done (result, None)))
           else
             (case call_api E (log_invocation function_name arguments st)
                     (pget args ''endpoint'' JNull) (pget args ''method'' (JStr ''GET''))
                     (pget args ''params'' (JObj [])) of
                (st1, Pending) \<Rightarrow> (st1, Pending)
              | (st1, Raised e) \<Rightarrow> (st1, Raised e)
              | (st1, Done r) \<Rightarrow>
                 (let result = ensure_dict E r
                  in case result_output_of E (pget args ''endpoint'' JNull) result of
                       Inl e \<Rightarrow> (st1, Raised e)
                     | Inr result_output \<Rightarrow> (st1, Done (result, Some result_output))))
        | _ \<Rightarrow> (st, Raised (Error ''object has no attribute get''))))"

definition function_response :: "env \<Rightarrow> json \<Rightarrow> json \<Rightarrow> json" where
  "function_response E call_id result_output =
    JObj [(''type'', JStr ''conversation.item.create''),
          (''item'',
             JObj [(''type'', JStr ''function_call_output''),
                   (''call_id'', call_id),
                   (''output'', JStr (json_dumps E result_output))])]"

definition response_create :: json where
  "response_create = JObj [(''type'', JStr ''response.create'')]"

definition function_result_notice :: "json \<Rightarrow> json \<Rightarrow> json" where
  "function_result_notice function_name result =
    JObj [(''type'', JStr ''function.result''), (''function'', function_name),
          (''result'', result)]"

text \<open>The exception of \<open>json.dumps(result_output)\<close> on the unbound variable (the wording
  is that of Python 3.11).\<close>

definition unbound_result_output :: exn where
  "unbound_result_output =
    Error ''cannot access local variable 'result_output' where it is not associated with a value''"

definition error_result :: "exn \<Rightarrow> json" where
  "error_result e = JObj [(''error'', JStr (exn_str e))]"

text \<open>
  \<open>handle_function_call\<close>. Whatever is raised inside becomes the result
  \<open>{"error": str(e)}\<close>: by the capability, before any send; by the unbound
  \<open>result_output\<close>, after the call identifier has been evaluated and before any send; by
  \<open>send_to_client\<close>, after the two sends upstream. When the capability never returns,
  neither does \<open>handle_function_call\<close>. There is no record of the call identifiers seen.
\<close>

definition handle_function_call ::
  "env \<Rightarrow> server \<Rightarrow> json \<Rightarrow> json \<Rightarrow> json \<Rightarrow> json \<Rightarrow> server \<times> json awaited" where
  "handle_function_call E st function_name arguments session_id call_id =
    (case invoke_capability E st function_name arguments of
       (st1, Pending) \<Rightarrow> (st1, Pending)
     | (st1, Raised e) \<Rightarrow> (st1, Done (error_result e))
     | (st1, Done (result, bound)) \<Rightarrow>
        (let st2 = (if py_truthy call_id then st1
                    else st1\<lparr>uuids_drawn := Suc (uuids_drawn st1)\<rparr>);
             cid = (if py_truthy call_id then call_id else JStr (uuid4 E (uuids_drawn st1)))
         in case bound of
              None \<Rightarrow> (st2, Done (error_result unbound_result_output))
            | Some result_output \<Rightarrow>
               (case (if openai_ws st2 \<noteq> None
                      then ebind (upstream_send st2 (function_response E cid result_output))
                             (\<lambda>st3. upstream_send st3 response_create)
                      else Inr st2) of
                  Inl e \<Rightarrow> (st2, Done (error_result e))
                | Inr st4 \<Rightarrow>
                   (case send_to_client st4 session_id
                           (function_result_notice function_name result) of
                      Inl e \<Rightarrow> (st4, Done (error_result e))
                    | Inr st5 \<Rightarrow> (st5, Done result)))))"

section \<open>The upstream pump: \<open>handle_openai_messages\<close>\<close>

text \<open>The two variables the pump keeps across events.\<close>

record pump =
  last_user_transcript :: json
  pending_user_transcript :: bool

definition initial_pump :: pump where
  "initial_pump = \<lparr> last_user_transcript = JStr '''', pending_user_transcript = False \<rparr>"

text \<open>\<open>x.get(k, default)\<close> on any value, iteration over any value, \<open>x > 0\<close> and
  \<open>x.lower()\<close>: each raises on a value of the wrong type.\<close>

fun py_dict_get :: "json \<Rightarrow> string \<Rightarrow> json \<Rightarrow> exn + json" where
  "py_dict_get (JObj kvs) k dflt = Inr (pget kvs k dflt)"
| "py_dict_get _ k dflt = Inl (Error ''object has no attribute get'')"

fun py_iter :: "json \<Rightarrow> exn + json list" where
  "py_iter (JList xs) = Inr xs"
| "py_iter (JStr s) = Inr (map (\<lambda>c. JStr [c]) s)"
| "py_iter (JObj kvs) = Inr (map (\<lambda>(k, v). JStr k) kvs)"
| "py_iter _ = Inl (TypeError ''object is not iterable'')"

fun py_gt_zero :: "json \<Rightarrow> exn + bool" where
  "py_gt_zero (JInt i) = Inr (i > 0)"
| "py_gt_zero (JBool b) = Inr b"
| "py_gt_zero (JDec m e) = Inr (m > 0)"
| "py_gt_zero _ = Inl (TypeError ''not supported between instances'')"

fun py_lower :: "json \<Rightarrow> exn + string" where
  "py_lower (JStr s) = Inr (str_lower s)"
| "py_lower _ = Inl (Error ''object has no attribute lower'')"

text \<open>The loop over the content parts of an item: the first part of type \<open>input_audio\<close>
  with a transcript.\<close>

fun find_input_audio :: "json list \<Rightarrow> exn + json option" where
  "find_input_audio [] = Inr None"
| "find_input_audio (c # cs) =
    ebind (py_dict_get c ''type'' JNull) (\<lambda>t.
      if t = JStr ''input_audio''
      then ebind (py_dict_get c ''transcript'' JNull) (\<lambda>transcript.
             if py_truthy transcript then Inr (Some transcript) else find_input_audio cs)
      else find_input_audio cs)"

definition transcription_complete :: "json \<Rightarrow> string \<Rightarrow> json" where
  "transcription_complete text role =
    JObj [(''type'', JStr ''transcription.complete''), (''text'', text), (''role'', JStr role)]"

definition assistant_delta :: "json \<Rightarrow> json" where
  "assistant_delta delta =
    JObj [(''type'', JStr ''transcription''), (''text'', delta), (''role'', JStr ''assistant'')]"

definition plain_notice :: "string \<Rightarrow> json" where
  "plain_notice type = JObj [(''type'', JStr type)]"

text \<open>Both \<open>response.audio_transcript.delta\<close> and \<open>response.created\<close> begin with this:
  the pending user transcript is sent and the flag cleared.\<close>

definition flush_pending :: "server \<Rightarrow> nat \<Rightarrow> pump \<Rightarrow> exn + server \<times> pump" where
  "flush_pending st w p =
    (if pending_user_transcript p \<and> py_truthy (last_user_transcript p)
     then ebind (ws_send st w (transcription_complete (last_user_transcript p) ''user''))
            (\<lambda>st1. Inr (st1, p\<lparr>pending_user_transcript := False\<rparr>))
     else Inr (st, p))"

definition send_and_keep :: "server \<Rightarrow> nat \<Rightarrow> pump \<Rightarrow> json \<Rightarrow> exn + server \<times> pump" where
  "send_and_keep st w p msg = ebind (ws_send st w msg) (\<lambda>st1. Inr (st1, p))"

definition finish :: "server \<Rightarrow> exn + server \<times> pump \<Rightarrow> server \<times> pump awaited" where
  "finish st r = (case r of Inl e \<Rightarrow> (st, Raised e) | Inr (st1, p1) \<Rightarrow> (st1, Done p1))"

text \<open>The checks \<open>response.created\<close> and \<open>response.done\<close> run on the \<open>response\<close> entry;
  they only log, but they raise on ill-typed entries.\<close>

definition inspect_created :: "json \<Rightarrow> exn + unit" where
  "inspect_created response_data =
    (if py_truthy response_data
     then ebind (py_dict_get response_data ''output'' (JList [])) (\<lambda>output_items.
          ebind (py_iter output_items) (\<lambda>items. Inr ()))
     else Inr ())"

definition inspect_done :: "json \<Rightarrow> exn + unit" where
  "inspect_done response =
    (if py_truthy response
     then ebind (py_dict_get response ''usage'' (JObj [])) (\<lambda>usage.
          ebind (if py_truthy usage
                 then ebind (py_dict_get usage ''input_tokens'' (JInt 0)) (\<lambda>input_tokens.
                      ebind (py_gt_zero input_tokens) (\<lambda>positive. Inr ()))
                 else Inr ()) (\<lambda>u.
          ebind (py_dict_get response ''output'' (JList [])) (\<lambda>output_items.
          ebind (py_iter output_items) (\<lambda>items. Inr ()))))
     else Inr ())"

text \<open>
  One iteration of the loop \<open>async for message in proxy.openai_ws\<close>, on a decoded
  message. The result is the pump's variables for the next iteration, the exception that
  ends the loop, or \<open>Pending\<close> when the iteration never completes.
\<close>

definition openai_event ::
  "env \<Rightarrow> nat \<Rightarrow> string \<Rightarrow> server \<Rightarrow> pump \<Rightarrow> json \<Rightarrow> server \<times> pump awaited" where
  "openai_event E w session_id st p data =
    (case data of
       JObj d \<Rightarrow>
        (let event_type = pget d ''type'' JNull in
         if event_type = JStr ''response.text.delta''
         then finish st (send_and_keep st w p
                 (JObj [(''type'', JStr ''text.response''), (''text'', pget d ''delta'' (JStr ''''))]))
         else if event_type = JStr ''response.audio.delta''
         then finish st (send_and_keep st w p
                 (JObj [(''type'', JStr ''audio.response''),
                        (''audio'', pget d ''delta'' (JStr ''''))]))
         else if event_type = JStr ''response.audio_transcript.delta''
         then finish st
                (ebind (flush_pending st w p) (\<lambda>(st1, p1).
                   send_and_keep st1 w p1 (assistant_delta (pget d ''delta'' (JStr '''')))))
         else if event_type = JStr ''response.audio_transcript.done''
         then (if py_truthy (pget d ''transcript'' (JStr ''''))
               then finish st (send_and_keep st w p
                      (transcription_complete (pget d ''transcript'' (JStr '''')) ''assistant''))
               else (st, Done p))
         else if event_type = JStr ''response.created''
         then finish st
                (ebind (flush_pending st w p) (\<lambda>(st1, p1).
                 ebind (inspect_created (pget d ''response'' (JObj []))) (\<lambda>u. Inr (st1, p1))))
         else if event_type = JStr ''response.done''
         then finish st
                (ebind (inspect_done (pget d ''response'' (JObj []))) (\<lambda>u.
                   send_and_keep st w p (plain_notice ''response.done'')))
         else if event_type = JStr ''response.content_part.done''
         then finish st
                (ebind (py_dict_get (pget d ''part'' (JObj [])) ''type'' JNull) (\<lambda>t.
                   if t = JStr ''audio'' then send_and_keep st w p (plain_notice ''audio.done'')
                   else Inr (st, p)))
         else if event_type = JStr ''conversation.item.input_audio_transcription.completed''
         then finish st
                (ebind (py_dict_get (pget d ''item'' (JObj [])) ''content'' (JList [])) (\<lambda>content.
                 ebind (py_iter content) (\<lambda>parts.
                 ebind (find_input_audio parts) (\<lambda>found.
                   (let transcript = (case found of
                                        Some t \<Rightarrow> t
                                      | None \<Rightarrow> pget d ''transcript'' (JStr ''''))
                    in if py_truthy transcript
                       then send_and_keep st w p (transcription_complete transcript ''user'')
                       else Inr (st, p))))))
         else if event_type = JStr ''conversation.item.created''
         then finish st
                (ebind (py_dict_get (pget d ''item'' (JObj [])) ''role'' JNull) (\<lambda>role.
                   if role = JStr ''user''
                   then ebind (py_dict_get (pget d ''item'' (JObj [])) ''content'' (JList []))
                          (\<lambda>content.
                        ebind (py_iter content) (\<lambda>parts.
                        ebind (find_input_audio parts) (\<lambda>found.
                          (case found of
                             Some t \<Rightarrow> send_and_keep st w p (transcription_complete t ''user'')
                           | None \<Rightarrow> Inr (st, p)))))
                   else Inr (st, p)))
         else if event_type = JStr ''conversation.item.input_audio_transcription.partial''
         then (if py_truthy (pget d ''transcript'' (JStr ''''))
               then finish st
                      (send_and_keep st w
                         (p\<lparr>last_user_transcript := pget d ''transcript'' (JStr ''''),
                            pending_user_transcript := True\<rparr>)
                         (JObj [(''type'', JStr ''transcription.partial''),
                                (''text'', pget d ''transcript'' (JStr '''')),
                                (''role'', JStr ''user'')]))
               else (st, Done p))
         else if event_type = JStr ''response.function_call_arguments.done''
         then
           (case (case pget d ''arguments'' (JStr ''{}'') of
                    JStr s \<Rightarrow> json_loads E s
                  | _ \<Rightarrow> Inl (TypeError ''the JSON object must be str'')) of
              Inl e \<Rightarrow> (st, Raised e)
            | Inr arguments \<Rightarrow>
               (case ws_send st w
                       (JObj [(''type'', JStr ''function_call''),
                              (''name'', pget d ''name'' JNull),
                              (''arguments'', arguments)]) of
                  Inl e \<Rightarrow> (st, Raised e)
                | Inr st1 \<Rightarrow>
                   (case handle_function_call E st1 (pget d ''name'' JNull) arguments
                           (JStr session_id) (pget d ''call_id'' JNull) of
                      (st2, Done result) \<Rightarrow> (st2, Done p)
                    | (st2, Raised e) \<Rightarrow> (st2, Raised e)
                    | (st2, Pending) \<Rightarrow> (st2, Pending))))
         else if event_type = JStr ''response.output_item.added''
         then finish st
                (ebind (py_dict_get (pget d ''item'' (JObj [])) ''type'' JNull)
                   (\<lambda>t. Inr (st, p)))
         else if event_type = JStr ''input_audio_buffer.speech_started''
         then finish st (send_and_keep st w p (plain_notice ''speech_started''))
         else if event_type = JStr ''input_audio_buffer.speech_stopped''
         then finish st
                (send_and_keep st w
                   (if py_truthy (last_user_transcript p)
                    then p\<lparr>pending_user_transcript := True\<rparr> else p)
                   (plain_notice ''speech_stopped''))
         else if event_type = JStr ''conversation.item.truncated''
         then finish st (send_and_keep st w p (plain_notice ''response_interrupted''))
         else if event_type = JStr ''response.cancelled''
         then finish st (send_and_keep st w p (plain_notice ''response_cancelled''))
         else if event_type = JStr ''error''
         then finish st
                (ebind (py_dict_get (pget d ''error'' (JObj [])) ''message''
                          (JStr ''Unknown error'')) (\<lambda>error_msg.
                 ebind (py_lower error_msg) (\<lambda>lowered.
                   if sublist ''critical'' lowered \<or> sublist ''failed'' lowered
                   then send_and_keep st w p
                          (JObj [(''type'', JStr ''error''), (''error'', error_msg),
                                 (''internal'', JBool True)])
                   else Inr (st, p))))
         else (st, Done p))
     | _ \<Rightarrow> (st, Raised (Error ''object has no attribute get'')))"

text \<open>The loop over the messages the upstream sends; it ends when the stream ends, at
  the first exception, or never when an iteration never completes.\<close>

fun handle_openai_messages ::
  "env \<Rightarrow> nat \<Rightarrow> string \<Rightarrow> server \<Rightarrow> pump \<Rightarrow> json list \<Rightarrow> server \<times> pump awaited" where
  "handle_openai_messages E w session_id st p [] = (st, Done p)"
| "handle_openai_messages E w session_id st p (data # rest) =
    (case openai_event E w session_id st p data of
       (st1, Done p1) \<Rightarrow> handle_openai_messages E w session_id st1 p1 rest
     | (st1, Raised e) \<Rightarrow> (st1, Raised e)
     | (st1, Pending) \<Rightarrow> (st1, Pending))"

section \<open>Sessions: \<open>connect_to_openai\<close>, \<open>websocket_endpoint\<close> and the audio path\<close>

text \<open>The VAD block of the configuration message, the same on every configuration.\<close>

definition turn_detection :: json where
  "turn_detection =
    JObj [(''type'', JStr ''server_vad''),
          (''threshold'', JDec 3 (- 1)),
          (''prefix_padding_ms'', JInt 500),
          (''silence_duration_ms'', JInt 600),
          (''create_response'', JBool True)]"

definition session_config :: "env \<Rightarrow> json \<Rightarrow> json \<Rightarrow> json" where
  "session_config E voice temperature =
    JObj [(''type'', JStr ''session.update''),
          (''session'',
             JObj [(''modalities'', JList [JStr ''text'', JStr ''audio'']),
                   (''instructions'', JStr (base_instructions E)),
                   (''voice'', if py_truthy voice then voice else JStr ''alloy''),
                   (''input_audio_format'', JStr ''pcm16''),
                   (''output_audio_format'', JStr ''pcm16''),
                   (''temperature'', if temperature \<noteq> JNull then temperature else JDec 7 (- 1)),
                   (''input_audio_transcription'', JObj [(''model'', JStr ''whisper-1'')]),
                   (''turn_detection'', turn_detection),
                   (''tools'', function_definitions E),
                   (''tool_choice'', JStr ''auto'')])]"

text \<open>\<open>configure_openai_session\<close> logs a failed send and goes on.\<close>

definition configure_openai_session :: "env \<Rightarrow> server \<Rightarrow> json \<Rightarrow> json \<Rightarrow> server" where
  "configure_openai_session E st voice temperature =
    (case upstream_send st (session_config E voice temperature) of
       Inl e \<Rightarrow> st
     | Inr st1 \<Rightarrow> st1)"

text \<open>
  \<open>connect_to_openai\<close>: \<open>dial\<close> is what \<open>websockets.connect\<close> gives, a new socket or an
  exception. The new socket is stored in the one \<open>openai_ws\<close> field of the proxy,
  whatever that field held.
\<close>

definition connect_to_openai :: "env \<Rightarrow> server \<Rightarrow> exn + nat \<Rightarrow> server \<times> bool" where
  "connect_to_openai E st dial =
    (case api_key st of
       None \<Rightarrow> (st, False)
     | Some k \<Rightarrow>
        if k = [] then (st, False)
        else (case dial of
                Inl e \<Rightarrow> (st, False)
              | Inr h \<Rightarrow> (configure_openai_session E (st\<lparr>openai_ws := Some h\<rparr>) JNull JNull, True)))"

text \<open>
  \<open>websocket_endpoint\<close> up to the start of the two pumps: the client socket is registered
  under the new session id, then the upstream is dialled. The boolean tells whether the
  pumps start.
\<close>

definition open_session :: "env \<Rightarrow> server \<Rightarrow> string \<Rightarrow> nat \<Rightarrow> exn + nat \<Rightarrow> server \<times> bool" where
  "open_session E st session_id w dial =
    (let st1 = st\<lparr>client_connections := dict_set (client_connections st) session_id w\<rparr>;
         (st2, connected) = connect_to_openai E st1 dial
     in if connected
        then (case ws_send st2 w (JObj [(''type'', JStr ''connected''),
                                        (''session_id'', JStr session_id)]) of
                Inl e \<Rightarrow> (st2, False)
              | Inr st3 \<Rightarrow> (st3, True))
        else (case ws_send st2 w (JObj [(''type'', JStr ''error''),
                                        (''error'', JStr ''Failed to connect to OpenAI'')]) of
                Inl e \<Rightarrow> (st2, False)
              | Inr st3 \<Rightarrow> (st3\<lparr>closed_clients := closed_clients st3 @ [w]\<rparr>, False)))"

text \<open>The \<open>finally\<close> block of \<open>websocket_endpoint\<close>: the socket in \<open>openai_ws\<close> is closed
  (the field keeps it) and the session is removed from \<open>client_connections\<close>.\<close>

definition close_session :: "server \<Rightarrow> string \<Rightarrow> server" where
  "close_session st session_id =
    (let st1 = (case openai_ws st of
                  None \<Rightarrow> st
                | Some h \<Rightarrow> st\<lparr>closed_upstream := closed_upstream st @ [h]\<rparr>)
     in st1\<lparr>client_connections :=
              filter (\<lambda>(sid, w). sid \<noteq> session_id) (client_connections st1)\<rparr>)"

text \<open>
  The life of the sessions of one process. The code keeps no phase; the phase of a
  session is where \<open>websocket_endpoint\<close> stands for it: \<open>ACTIVE\<close> while its pumps run,
  \<open>CLOSED\<close> after its \<open>finally\<close> block or after a failed connect. \<open>opened\<close> records which
  session's connect opened which upstream socket.
\<close>

datatype phase = CONNECTING | ACTIVE | CLOSING | CLOSED

datatype lifecycle = ClientConnects string nat "exn + nat" | ClientLeaves string

record registry =
  srv :: server
  phases :: "(string \<times> phase) list"
  opened :: "(string \<times> nat) list"

fun lifecycle_step :: "env \<Rightarrow> registry \<Rightarrow> lifecycle \<Rightarrow> registry" where
  "lifecycle_step E reg (ClientConnects session_id w dial) =
    (let (st, started) = open_session E (srv reg) session_id w dial
     in \<lparr> srv = st,
          phases = dict_set (phases reg) session_id (if started then ACTIVE else CLOSED),
          opened = (case dial of
                      Inr h \<Rightarrow> if openai_ws st = Some h then opened reg @ [(session_id, h)]
                               else opened reg
                    | Inl e \<Rightarrow> opened reg) \<rparr>)"
| "lifecycle_step E reg (ClientLeaves session_id) =
    (if map_of (phases reg) session_id = Some ACTIVE
     then reg\<lparr> srv := close_session (srv reg) session_id,
               phases := dict_set (phases reg) session_id CLOSED \<rparr>
     else reg)"

fun lifecycle_run :: "env \<Rightarrow> registry \<Rightarrow> lifecycle list \<Rightarrow> registry" where
  "lifecycle_run E reg [] = reg"
| "lifecycle_run E reg (ev # evs) = lifecycle_run E (lifecycle_step E reg ev) evs"

subsection \<open>Audio from the client\<close>

definition audio_append :: "json \<Rightarrow> json" where
  "audio_append audio = JObj [(''type'', JStr ''input_audio_buffer.append''), (''audio'', audio)]"

definition audio_commit :: json where
  "audio_commit = JObj [(''type'', JStr ''input_audio_buffer.commit'')]"

text \<open>
  \<open>forward_audio_to_openai\<close>: a PCM16 chunk (or one without a format) is appended to the
  input buffer and the buffer is committed, on every chunk. The function does not look at
  the turn detection the session was configured with. What is raised inside the \<open>try\<close> is
  reported through \<open>send_to_client\<close>, outside of it.
\<close>

definition forward_audio_to_openai :: "server \<Rightarrow> json \<Rightarrow> json \<Rightarrow> json \<Rightarrow> exn + server" where
  "forward_audio_to_openai st audio_base64 audio_format session_id =
    (case openai_ws st of
       None \<Rightarrow> Inr st
     | Some h \<Rightarrow>
        (case (if audio_format = JStr ''webm''
               then send_to_client st session_id
                      (JObj [(''type'', JStr ''audio_format_error''),
                             (''message'', JStr ''Please use PCM16 audio format at 24kHz'')])
               else if audio_format = JStr ''pcm16'' \<or> \<not> py_truthy audio_format
               then ebind (upstream_send st (audio_append audio_base64))
                      (\<lambda>st1. upstream_send st1 audio_commit)
               else Inr st) of
           Inr st2 \<Rightarrow> Inr st2
         | Inl e \<Rightarrow>
            if py_truthy session_id
            then send_to_client st session_id
                   (JObj [(''type'', JStr ''error''),
                          (''error'', JStr (''Audio processing error: '' @ exn_str e))])
            else Inr st))"

text \<open>The \<open>audio.input\<close> branch of \<open>handle_client_message\<close>.\<close>

definition handle_audio_input :: "server \<Rightarrow> string \<Rightarrow> (string \<times> json) list \<Rightarrow> exn + server" where
  "handle_audio_input st session_id message =
    forward_audio_to_openai st (pget message ''audio'' JNull) (pget message ''format'' JNull)
      (JStr session_id)"

text \<open>The binary branch of \<open>handle_rtc_client_messages\<close>: raw audio is appended, and
  nothing else is sent.\<close>

definition handle_rtc_audio :: "server \<Rightarrow> json \<Rightarrow> exn + server" where
  "handle_rtc_audio st audio_base64 =
    (if openai_ws st \<noteq> None then upstream_send st (audio_append audio_base64) else Inr st)"

section \<open>Turns\<close>













text \<open>The frames sent to the clients since the state \<open>st\<close>.\<close>

definition frames_since :: "server \<Rightarrow> server \<Rightarrow> (nat \<times> json) list" where
  "frames_since st st1 = drop (length (client_frames st)) (client_frames st1)"

section \<open>A concrete environment for the examples\<close>

definition test_env :: env where
  "test_env =
    \<lparr> py_str = (\<lambda>v. case v of JStr s \<Rightarrow> s | JInt i \<Rightarrow> str_of_int i | _ \<Rightarrow> ''?''),
      py_int = (\<lambda>v. case v of JInt i \<Rightarrow> Inr i | _ \<Rightarrow> Inl (TypeError ''int'')),
      per_person = (\<lambda>p n. Inl (ValueError ''float'')),
      json_loads = (\<lambda>s. if s = ''{}'' then Inr (JObj []) else Inl (ValueError ''json'')),
      json_dumps = (\<lambda>v. ''json''),
      response_json = (\<lambda>s. Inl (ValueError ''json'')),
      getenv = (\<lambda>k. None),
      now = ''2025-01-01T00:00:00'',
      uuid4 = (\<lambda>n. ''uuid-'' @ str_of_nat n),
      workflow_ms = 2000,
      http_get = (\<lambda>url headers. NeverReturns),
      http_post = (\<lambda>url headers body. NeverReturns),
      new_amadeus = (\<lambda>cid secret. None),
      new_handler = (\<lambda>cid secret. None),
      legacy_shape = (\<lambda>endpoint params data. Inr None),
      base_instructions = ''You are a helpful AI assistant.'',
      function_definitions = JList [] \<rparr>"

definition test_offer :: json where
  "test_offer =
    JObj [(''price'', JObj [(''total'', JStr ''100.00''), (''currency'', JStr ''EUR'')]),
          (''itineraries'',
             JList [JObj [(''duration'', JStr ''PT7H''),
                          (''segments'',
                             JList [JObj [(''carrierCode'', JStr ''BA''),
                                          (''departure'', JObj [(''at'', JStr ''10:00'')]),
                                          (''arrival'', JObj [(''at'', JStr ''17:00'')])]])]])]"

definition test_flight_params :: "(string \<times> json) list" where
  "test_flight_params =
    [(''origin'', JStr ''jfk''), (''destination'', JStr ''lhr''),
     (''departure_date'', JStr ''2025-01-15'')]"

text \<open>An Amadeus client that answers after one second with seven offers.\<close>

definition seven_offers :: amadeus where
  "seven_offers = (\<lambda>search_params. Responds 1 (WithData (JList (replicate 7 test_offer))))"

text \<open>A process that has just started, with two configured endpoints.\<close>

definition test_endpoint :: "string \<Rightarrow> string \<Rightarrow> api_endpoint" where
  "test_endpoint name url =
    \<lparr> ep_id = name, ep_active = True, ep_url = Some url, ep_params = None, ep_headers = [],
      ep_search_engine_id = None, ep_api_key = None, ep_auth_type = ''none'',
      ep_auth_param = ''Authorization'', ep_body_template = None,
      ep_client_id = [], ep_client_secret = [] \<rparr>"

definition fresh_server :: server where
  "fresh_server =
    \<lparr> api_key = Some ''sk-test'', openai_ws = None, client_connections = [],
      rag_store = None,
      api_config = [test_endpoint ''dog'' ''https://dog.example/random'',
                    test_endpoint ''orders'' ''https://orders.example/api''],
      amadeus_client = None, flight_handler = None, amadeus_credentials = [],
      upstream_frames = [], client_frames = [], closed_upstream = [], closed_clients = [],
      io_log = [], invocations = [], uuids_drawn = 0 \<rparr>"

definition fresh_registry :: registry where
  "fresh_registry = \<lparr> srv = fresh_server, phases = [], opened = [] \<rparr>"

text \<open>The process after the client on socket 10 has connected as session \<open>s1\<close> and the
  upstream socket 1 has been opened for it.\<close>

definition one_session :: server where
  "one_session = fst (open_session test_env fresh_server ''s1'' 10 (Inr 1))"

text \<open>Remote services that answer every request with status 500, and ones that answer
  every request with status 200 and the body \<open>{"message": "http://x/img.png"}\<close>.\<close>

definition failing_http :: env where
  "failing_http =
    test_env\<lparr> http_get := (\<lambda>url headers. Responds 1 (500, ''Internal Server Error'')),
              http_post := (\<lambda>url headers body. Responds 1 (500, ''Internal Server Error'')) \<rparr>"

definition image_body :: json where
  "image_body = JObj [(''message'', JStr ''http://x/img.png'')]"

definition image_http :: env where
  "image_http =
    test_env\<lparr> http_get := (\<lambda>url headers. Responds 1 (200, ''body'')),
              http_post := (\<lambda>url headers body. Responds 1 (200, ''body'')),
              json_loads := (\<lambda>s. if s = ''{}'' then Inr (JObj []) else Inr image_body),
              response_json := (\<lambda>s. Inr image_body) \<rparr>"

text \<open>A \<open>call_external_api\<close> request as the upstream sends it.\<close>

definition api_call :: "string \<Rightarrow> string \<Rightarrow> json" where
  "api_call endpoint method =
    JObj [(''endpoint'', JStr endpoint), (''method'', JStr method), (''params'', JObj [])]"

text \<open>Upstream events, as decoded messages.\<close>

definition function_call_done :: "json \<Rightarrow> json \<Rightarrow> string \<Rightarrow> json" where
  "function_call_done name call_id arguments =
    JObj [(''type'', JStr ''response.function_call_arguments.done''),
          (''name'', name), (''call_id'', call_id), (''arguments'', JStr arguments)]"

definition event :: "string \<Rightarrow> json" where
  "event type = JObj [(''type'', JStr type)]"

text \<open>
  An environment whose remote services never answer, and one whose remote services answer
  every request with status 500; in both the argument text \<open>orders\<close> decodes to a GET of
  the configured endpoint \<open>orders\<close>.
\<close>

definition silent_http :: env where
  "silent_http =
    test_env\<lparr> json_loads := (\<lambda>s. if s = ''orders'' then Inr (api_call ''orders'' ''GET'')
                                else if s = ''{}'' then Inr (JObj [])
                                else Inl (ValueError ''json'')) \<rparr>"


text \<open>An Amadeus client that never answers.\<close>

definition silent_amadeus :: amadeus where
  "silent_amadeus = (\<lambda>search_params. NeverReturns)"








section \<open>Properties\<close>

lemma run_steps_append: "run_steps steps acc = acc @ steps"
  by (induction steps arbitrary: acc) simp_all

lemma map_of_workflows_unknown:
  "w \<notin> set canonical_workflows \<Longrightarrow> map_of workflows w = None"
  by (simp add: workflows_def canonical_workflows_def)

lemma workflow_steps_unknown:
  "hashable wt \<Longrightarrow> wt \<notin> JStr ` set canonical_workflows \<Longrightarrow> workflow_steps wt = Inr []"
proof (cases wt)
  case (JStr w)
  assume "wt \<notin> JStr ` set canonical_workflows"
  with JStr have "w \<notin> set canonical_workflows" by auto
  then have "map_of workflows w = None" by (rule map_of_workflows_unknown)
  with JStr show ?thesis by simp
qed simp_all

lemma workflow_steps_known:
  "workflow_steps (JStr ''customer_onboarding'') =
     Inr [''verify_identity'', ''create_account'', ''send_welcome_email'', ''schedule_followup'']"
  "workflow_steps (JStr ''support_ticket'') =
     Inr [''categorize_issue'', ''check_knowledge_base'', ''create_ticket'', ''assign_agent'',
      ''send_confirmation'']"
  "workflow_steps (JStr ''order_processing'') =
     Inr [''validate_order'', ''check_inventory'', ''process_payment'', ''generate_invoice'',
      ''arrange_shipping'']"
  "workflow_steps (JStr ''data_analysis'') =
     Inr [''fetch_data'', ''clean_data'', ''run_analysis'', ''generate_report'']"
  by (simp_all add: workflows_def)

lemma workflow_steps_hashable: "hashable wt \<Longrightarrow> \<exists>steps. workflow_steps wt = Inr steps"
  by (cases wt) simp_all

lemma execute_workflow_returns:
  "workflow_steps wt = Inr steps \<Longrightarrow>
   \<exists>r. execute_workflow wid d wt ps = Inr r
     \<and> is_success r \<and> \<not> is_failure r
     \<and> jget r ''status'' = Some (JStr ''completed'')
     \<and> jget r ''steps_executed'' = Some (JList (map JStr steps))"
  by (simp add: execute_workflow_def Let_def run_steps_append is_success_def is_failure_def)

text \<open>
  C8. \<open>execute_workflow\<close> never returns a failure: for every workflow type that can be a
  dictionary key (a string, a number, a boolean or \<open>None\<close>) the call returns a success with
  status \<open>completed\<close>. For a type that is not one of the four canonical names the executed
  step list is empty; for each canonical name the executed steps are exactly that
  workflow's fixed ordered list, of four or five names.
\<close>

theorem C8_execute_workflow:
  "(hashable wt \<longrightarrow>
      (\<exists>r. execute_workflow wid d wt ps = Inr r
         \<and> is_success r \<and> \<not> is_failure r
         \<and> jget r ''status'' = Some (JStr ''completed'')
         \<and> (wt \<notin> JStr ` set canonical_workflows \<longrightarrow>
               jget r ''steps_executed'' = Some (JList []))))
   \<and> (\<forall>r. execute_workflow wid d wt ps = Inr r \<longrightarrow> \<not> is_failure r)
   \<and> (\<exists>r. execute_workflow wid d (JStr ''customer_onboarding'') ps = Inr r
         \<and> jget r ''steps_executed'' =
            Some (JList [JStr ''verify_identity'', JStr ''create_account'',
                         JStr ''send_welcome_email'', JStr ''schedule_followup'']))
   \<and> (\<exists>r. execute_workflow wid d (JStr ''support_ticket'') ps = Inr r
         \<and> jget r ''steps_executed'' =
            Some (JList [JStr ''categorize_issue'', JStr ''check_knowledge_base'',
                         JStr ''create_ticket'', JStr ''assign_agent'',
                         JStr ''send_confirmation'']))
   \<and> (\<exists>r. execute_workflow wid d (JStr ''order_processing'') ps = Inr r
         \<and> jget r ''steps_executed'' =
            Some (JList [JStr ''validate_order'', JStr ''check_inventory'',
                         JStr ''process_payment'', JStr ''generate_invoice'',
                         JStr ''arrange_shipping'']))
   \<and> (\<exists>r. execute_workflow wid d (JStr ''data_analysis'') ps = Inr r
         \<and> jget r ''steps_executed'' =
            Some (JList [JStr ''fetch_data'', JStr ''clean_data'', JStr ''run_analysis'',
                         JStr ''generate_report'']))"
proof (intro conjI impI allI)
  assume h: "hashable wt"
  then obtain steps where st: "workflow_steps wt = Inr steps"
    using workflow_steps_hashable by blast
  from execute_workflow_returns[OF st, of wid d ps] obtain r where
    r: "execute_workflow wid d wt ps = Inr r" "is_success r" "\<not> is_failure r"
       "jget r ''status'' = Some (JStr ''completed'')"
       "jget r ''steps_executed'' = Some (JList (map JStr steps))"
    by blast
  have "wt \<notin> JStr ` set canonical_workflows \<longrightarrow> steps = []"
    using workflow_steps_unknown[OF h] st by auto
  with r show "\<exists>r. execute_workflow wid d wt ps = Inr r
         \<and> is_success r \<and> \<not> is_failure r
         \<and> jget r ''status'' = Some (JStr ''completed'')
         \<and> (wt \<notin> JStr ` set canonical_workflows \<longrightarrow>
               jget r ''steps_executed'' = Some (JList []))"
    by auto
next
  fix r assume "execute_workflow wid d wt ps = Inr r"
  then show "\<not> is_failure r"
    by (auto simp: execute_workflow_def Let_def is_failure_def split: sum.splits)
qed (use execute_workflow_returns[OF workflow_steps_known(1), of wid d ps]
         execute_workflow_returns[OF workflow_steps_known(2), of wid d ps]
         execute_workflow_returns[OF workflow_steps_known(3), of wid d ps]
         execute_workflow_returns[OF workflow_steps_known(4), of wid d ps] in auto)

theorem C8_execute_workflow_witness:
  "hashable (JStr ''nonexistent_workflow'')
   \<and> JStr ''nonexistent_workflow'' \<notin> JStr ` set canonical_workflows
   \<and> (\<exists>r. execute_workflow ''id-1'' 0 (JStr ''nonexistent_workflow'') (JObj []) = Inr r
         \<and> is_success r \<and> jget r ''status'' = Some (JStr ''completed'')
         \<and> jget r ''steps_executed'' = Some (JList []))"
proof -
  have n: "JStr ''nonexistent_workflow'' \<notin> JStr ` set canonical_workflows"
    by (simp add: canonical_workflows_def)
  show ?thesis
    using C8_execute_workflow [of "JStr ''nonexistent_workflow''" "''id-1''" 0 "JObj []"] n
    by auto
qed

subsection \<open>Knowledge base search\<close>

lemma split_aux_nonspace:
  "split_aux cur s =
     (let w = takeWhile (\<lambda>c. \<not> is_space c) s; r = dropWhile (\<lambda>c. \<not> is_space c) s
      in if r = [] then (if cur @ w = [] then [] else [cur @ w])
         else (if cur @ w = [] then split_aux [] (tl r) else (cur @ w) # split_aux [] (tl r)))"
  by (induction s arbitrary: cur) (auto simp: Let_def)

lemma split_aux_dropWhile: "split_aux [] s = split_aux [] (dropWhile is_space s)"
  by (induction s) auto

lemma tokens_upto_Nil: "tokens_upto n [] = []"
  by (cases n) simp_all

lemma tokens_upto_dropWhile: "tokens_upto n s = tokens_upto n (dropWhile is_space s)"
  by (cases n) simp_all

lemma tokens_upto_tl: "r \<noteq> [] \<Longrightarrow> is_space (hd r) \<Longrightarrow> tokens_upto n (tl r) = tokens_upto n r"
  using tokens_upto_dropWhile[of n r] tokens_upto_dropWhile[of n "tl r"]
  by (cases r) simp_all

text \<open>Python's \<open>split()[:n]\<close> yields the first \<open>n\<close> whitespace-delimited tokens.\<close>

lemma take_split_tokens: "take n (split_aux [] s) = tokens_upto n s"
proof (induction n arbitrary: s)
  case 0
  then show ?case by simp
next
  case (Suc n)
  show ?case
  proof (cases "dropWhile is_space s")
    case Nil
    have a: "split_aux [] s = []"
      by (subst split_aux_dropWhile) (simp add: Nil)
    have b: "tokens_upto (Suc n) s = []"
      by (simp only: tokens_upto.simps Nil list.case)
    show ?thesis by (simp only: a b take.simps)
  next
    case (Cons c t)
    define w where "w = takeWhile (\<lambda>c. \<not> is_space c) (c # t)"
    define r where "r = dropWhile (\<lambda>c. \<not> is_space c) (c # t)"
    have ns: "\<not> is_space c" using hd_dropWhile[of is_space s] Cons by simp
    then have w: "w \<noteq> []" by (simp add: w_def)
    have tok: "tokens_upto (Suc n) s = w # tokens_upto n r"
      using Cons by (simp add: w_def r_def)
    have sp: "split_aux [] s = (if r = [] then [w] else w # split_aux [] (tl r))"
      using split_aux_dropWhile[of s] split_aux_nonspace[of "[]" "c # t"] w Cons
      by (simp add: Let_def w_def r_def)
    show ?thesis
    proof (cases "r = []")
      case True
      then show ?thesis using tok sp by (simp add: tokens_upto_Nil)
    next
      case False
      then have "is_space (hd r)" unfolding r_def
        using hd_dropWhile[of "\<lambda>c. \<not> is_space c" "c # t"] by blast
      then have "tokens_upto n (tl r) = tokens_upto n r"
        using False by (rule tokens_upto_tl[rotated])
      then show ?thesis using tok sp False Suc.IH[of "tl r"] by simp
    qed
  qed
qed

lemma keyword_query_spec: "keyword_query q = py_join '' '' (first_three_tokens (str_lower q))"
  by (simp add: keyword_query_def first_three_tokens_def split_ws_def take_split_tokens)

lemma formatted_response_not_failure: "\<not> is_failure (formatted_response q docs)"
  by (simp add: formatted_response_def is_failure_def Let_def split: prod.splits)

lemma no_documents_not_failure: "\<not> is_failure (no_documents q)"
  by (simp add: no_documents_def is_failure_def)

lemma rag_error_failure: "is_failure (rag_error m)"
  by (simp add: rag_error_def is_failure_def)

lemma search_rag_failure_iff:
  "snd (search_rag store (JStr q) k) = Done r \<Longrightarrow> is_failure r = index_unavailable store q k"
  by (auto simp: search_rag_def index_unavailable_def formatted_response_not_failure
        no_documents_not_failure rag_error_failure
      split: option.splits awaited.splits if_splits)

lemma search_rag_retry:
  "await (ss (JStr q) k) = Done [] \<Longrightarrow>
   fst (search_rag (Some ss) (JStr q) k) = [(JStr q, k), (JStr (keyword_query q), k)]"
  by (simp add: search_rag_def split: awaited.splits)

lemma search_rag_no_retry:
  "await (ss (JStr q) k) = Done (d # ds) \<Longrightarrow>
   fst (search_rag (Some ss) (JStr q) k) = [(JStr q, k)]"
  by (simp add: search_rag_def)

lemma search_rag_zero:
  "await (ss (JStr q) k) = Done [] \<Longrightarrow> await (ss (JStr (keyword_query q)) k) = Done [] \<Longrightarrow>
   snd (search_rag (Some ss) (JStr q) k) = Done (no_documents (JStr q))"
  by (simp add: search_rag_def)

text \<open>
  C7. For a string query against an initialised store: when the similarity search yields
  no document, \<open>search_rag\<close> searches exactly once more, with the query made of the first
  three whitespace-delimited tokens of the lower-cased query joined by single spaces (and
  it does not search again when the first search yields documents). When the second search
  yields nothing either, the result is a success with an empty \<open>results\<close> list, \<open>count\<close> 0
  and a non-empty explanatory message. A returned result is a failure exactly when the
  index is unavailable (no store, or a search raises), never because nothing was found.
\<close>

theorem C7_search_rag:
  "(await (ss (JStr q) k) = Done [] \<longrightarrow>
      fst (search_rag (Some ss) (JStr q) k) =
        [(JStr q, k), (JStr (py_join '' '' (first_three_tokens (str_lower q))), k)])
   \<and> (\<forall>d ds. await (ss (JStr q) k) = Done (d # ds) \<longrightarrow>
         fst (search_rag (Some ss) (JStr q) k) = [(JStr q, k)])
   \<and> (await (ss (JStr q) k) = Done []
        \<and> await (ss (JStr (py_join '' '' (first_three_tokens (str_lower q)))) k) = Done [] \<longrightarrow>
        (\<exists>r m. snd (search_rag (Some ss) (JStr q) k) = Done r
           \<and> is_success r \<and> \<not> is_failure r
           \<and> jget r ''results'' = Some (JList [])
           \<and> jget r ''count'' = Some (JInt 0)
           \<and> jget r ''message'' = Some (JStr m) \<and> m \<noteq> []))
   \<and> (\<forall>r. snd (search_rag store (JStr q) k) = Done r \<longrightarrow>
         is_failure r = index_unavailable store q k)"
proof (intro conjI impI allI)
  assume "await (ss (JStr q) k) = Done []"
  then show "fst (search_rag (Some ss) (JStr q) k) =
      [(JStr q, k), (JStr (py_join '' '' (first_three_tokens (str_lower q))), k)]"
    using search_rag_retry[of ss q k] by (simp add: keyword_query_spec)
next
  fix d ds assume "await (ss (JStr q) k) = Done (d # ds)"
  then show "fst (search_rag (Some ss) (JStr q) k) = [(JStr q, k)]"
    by (rule search_rag_no_retry)
next
  assume a: "await (ss (JStr q) k) = Done []
     \<and> await (ss (JStr (py_join '' '' (first_three_tokens (str_lower q)))) k) = Done []"
  then have "snd (search_rag (Some ss) (JStr q) k) = Done (no_documents (JStr q))"
    using search_rag_zero[of ss q k] by (simp add: keyword_query_spec)
  then show "\<exists>r m. snd (search_rag (Some ss) (JStr q) k) = Done r
           \<and> is_success r \<and> \<not> is_failure r
           \<and> jget r ''results'' = Some (JList [])
           \<and> jget r ''count'' = Some (JInt 0)
           \<and> jget r ''message'' = Some (JStr m) \<and> m \<noteq> []"
    by (simp add: no_documents_def is_success_def is_failure_def)
next
  fix r assume "snd (search_rag store (JStr q) k) = Done r"
  then show "is_failure r = index_unavailable store q k"
    by (rule search_rag_failure_iff)
qed

theorem C7_search_rag_witness:
  "fst (search_rag (Some (\<lambda>q k. Responds 0 [])) (JStr ''Refund  POLICY for  orders'') (JInt 5)) =
     [(JStr ''Refund  POLICY for  orders'', JInt 5), (JStr ''refund policy for'', JInt 5)]
   \<and> (\<exists>r. snd (search_rag (Some (\<lambda>q k. Responds 0 [])) (JStr ''Refund  POLICY for  orders'')
              (JInt 5)) = Done r
          \<and> jget r ''count'' = Some (JInt 0) \<and> \<not> is_failure r)"
proof -
  have tok: "py_join '' '' (first_three_tokens (str_lower ''Refund  POLICY for  orders''))
      = ''refund policy for''"
    by code_simp
  show ?thesis
    using C7_search_rag [of "\<lambda>q k. Responds 0 []" "''Refund  POLICY for  orders''" "JInt 5"
        "Some (\<lambda>q k. Responds 0 [])"]
    unfolding tok by auto
qed

subsection \<open>Flight search\<close>

lemma offers_loop_length: "length (offers_loop body offers acc) \<le> length acc + length offers"
proof (induction offers arbitrary: acc)
  case Nil
  then show ?case by simp
next
  case (Cons a offers)
  show ?case
  proof (cases "body a")
    case None
    then show ?thesis using Cons[of acc] by simp
  next
    case (Some x)
    then show ?thesis using Cons[of "acc @ [x]"] by simp
  qed
qed

lemma first_five_length: "first_five data = Inr offers \<Longrightarrow> length offers \<le> 5"
  by (cases data) auto

lemma offers_loop_first_five:
  "first_five data = Inr offers \<Longrightarrow> length (offers_loop body offers []) \<le> 5"
  using offers_loop_length[of body offers "[]"] first_five_length[of data offers] by simp

lemma build_search_params_max:
  "build_search_params E q = Inr sp \<Longrightarrow> map_of sp ''max'' = Some (JInt 5)"
  by (auto simp: build_search_params_def Let_def ebind_def split: if_splits sum.splits)

lemma flights_of_error: "flights_of (flight_error m) = None"
  by (simp add: flights_of_def flight_error_def)

lemma flights_of_none: "flights_of (no_flights_found q) = Some []"
  by (simp add: flights_of_def no_flights_found_def)

lemma flights_of_found: "flights_of (flights_found E q fs) = Some fs"
  by (simp add: flights_of_def flights_found_def)

lemma builtin_flights:
  "search_flights_builtin E client params = (ios, r) \<Longrightarrow> flights_of r = Some fs \<Longrightarrow>
   length fs \<le> 5"
  by (auto simp: search_flights_builtin_def flights_of_error flights_of_none flights_of_found
      split: sum.splits if_splits exn.splits amadeus_response.splits
      intro: offers_loop_first_five)

lemma builtin_requests:
  "search_flights_builtin E client params = (ios, r) \<Longrightarrow> x \<in> set ios \<Longrightarrow>
     \<exists>sp. x = AmadeusSearch sp \<and> map_of sp ''max'' = Some (JInt 5)"
  by (auto simp: search_flights_builtin_def build_search_params_max
      split: sum.splits if_splits exn.splits amadeus_response.splits)

lemma success_has_flights:
  "search_flights_builtin E client params = (ios, r) \<Longrightarrow>
   jget r ''status'' = Some (JStr ''success'') \<Longrightarrow> \<exists>fs. flights_of r = Some fs"
  by (auto simp: search_flights_builtin_def flight_error_def flights_of_none flights_of_found
      split: sum.splits if_splits exn.splits amadeus_response.splits)

lemma search_flights_builtin_path:
  "search_flights E None (Some client) params =
     (fst (search_flights_builtin E client params),
      Done (snd (search_flights_builtin E client params)))"
  by (simp add: search_flights_def split: prod.splits)

text \<open>
  C10. On the built-in Amadeus path (no enhanced handler, a client present) every request
  sent to Amadeus carries \<open>max = 5\<close>, a flights list in the result has at most five entries,
  and every successful result has such a list.
\<close>

theorem C10_flights_at_most_five:
  "search_flights E None (Some client) params = (ios, Done r) \<Longrightarrow>
     (\<forall>x \<in> set ios. \<exists>sp. x = AmadeusSearch sp \<and> map_of sp ''max'' = Some (JInt 5))
     \<and> (\<forall>fs. flights_of r = Some fs \<longrightarrow> length fs \<le> 5)
     \<and> (jget r ''status'' = Some (JStr ''success'') \<longrightarrow>
          (\<exists>fs. flights_of r = Some fs \<and> length fs \<le> 5))"
proof -
  assume a: "search_flights E None (Some client) params = (ios, Done r)"
  then have b: "search_flights_builtin E client params = (ios, r)"
    by (simp add: search_flights_def split: prod.splits)
  show ?thesis
    using builtin_requests[OF b] builtin_flights[OF b] success_has_flights[OF b] by blast
qed

theorem C10_flights_at_most_five_witness:
  "\<exists>ios r fs. search_flights test_env None (Some seven_offers) test_flight_params = (ios, Done r)
     \<and> ios \<noteq> []
     \<and> (\<forall>x \<in> set ios. \<exists>sp. x = AmadeusSearch sp \<and> map_of sp ''max'' = Some (JInt 5))
     \<and> flights_of r = Some fs \<and> length fs = 5"
proof -
  let ?R = "search_flights_builtin test_env seven_offers test_flight_params"
  have p: "search_flights test_env None (Some seven_offers) test_flight_params
      = (fst ?R, Done (snd ?R))"
    by (rule search_flights_builtin_path)
  have l: "map_option length (flights_of (snd ?R)) = Some 5"
    by code_simp
  have n: "fst ?R \<noteq> []"
    by code_simp
  from l obtain fs where fs: "flights_of (snd ?R) = Some fs" "length fs = 5"
    by auto
  show ?thesis
    using C10_flights_at_most_five [OF p] p fs n by blast
qed

subsection \<open>Sessions and the upstream socket\<close>

text \<open>
  C3. The clients are registered under their session ids and the upstream is dialled once
  for each session, but the socket is stored in the one field \<open>openai_ws\<close> of the proxy.
  With two clients connected one after the other, both sessions are active and the second
  connect has replaced the handle: the audio of the first session is sent on the socket
  opened for the second. When the first session leaves, its teardown closes the socket
  opened for the second session, which is still active and can no longer send, and the
  socket opened for the first session is never closed. And after the only session of a
  process has left, the handle still holds the closed socket.
\<close>

theorem C3_upstream_socket_hijacked:
  "opened (lifecycle_run test_env fresh_registry
        [ClientConnects ''a'' 10 (Inr 1), ClientConnects ''b'' 11 (Inr 2)])
     = [(''a'', 1), (''b'', 2)]
   \<and> phases (lifecycle_run test_env fresh_registry
        [ClientConnects ''a'' 10 (Inr 1), ClientConnects ''b'' 11 (Inr 2)])
     = [(''a'', ACTIVE), (''b'', ACTIVE)]
   \<and> openai_ws (srv (lifecycle_run test_env fresh_registry
        [ClientConnects ''a'' 10 (Inr 1), ClientConnects ''b'' 11 (Inr 2)]))
     = Some 2
   \<and> map_sum id upstream_frames
        (handle_audio_input
           (srv (lifecycle_run test_env fresh_registry
              [ClientConnects ''a'' 10 (Inr 1), ClientConnects ''b'' 11 (Inr 2)]))
           ''a'' [(''type'', JStr ''audio.input''), (''audio'', JStr ''AAAA''),
                  (''format'', JStr ''pcm16'')])
     = Inr [(1, session_config test_env JNull JNull), (2, session_config test_env JNull JNull),
            (2, audio_append (JStr ''AAAA'')), (2, audio_commit)]
   \<and> phases (lifecycle_run test_env fresh_registry
        [ClientConnects ''a'' 10 (Inr 1), ClientConnects ''b'' 11 (Inr 2), ClientLeaves ''a''])
     = [(''a'', CLOSED), (''b'', ACTIVE)]
   \<and> closed_upstream (srv (lifecycle_run test_env fresh_registry
        [ClientConnects ''a'' 10 (Inr 1), ClientConnects ''b'' 11 (Inr 2), ClientLeaves ''a'']))
     = [2]
   \<and> map_sum id upstream_frames
        (upstream_send (srv (lifecycle_run test_env fresh_registry
           [ClientConnects ''a'' 10 (Inr 1), ClientConnects ''b'' 11 (Inr 2),
            ClientLeaves ''a'']))
           response_create)
     = Inl (Error ''connection closed'')
   \<and> phases (lifecycle_run test_env fresh_registry
        [ClientConnects ''a'' 10 (Inr 1), ClientLeaves ''a''])
     = [(''a'', CLOSED)]
   \<and> openai_ws (srv (lifecycle_run test_env fresh_registry
        [ClientConnects ''a'' 10 (Inr 1), ClientLeaves ''a'']))
     = Some 1"
  by code_simp

subsection \<open>Audio from the client\<close>

text \<open>
  C4. The session is configured with server VAD, and the chunk of an \<open>audio.input\<close>
  message is appended and then committed: on the upstream socket the configuration is
  followed by the append and the commit of the one chunk. The binary audio path of the
  same server appends only.
\<close>

theorem C4_commit_follows_append:
  "jget turn_detection ''type'' = Some (JStr ''server_vad'')
   \<and> upstream_frames one_session = [(1, session_config test_env JNull JNull)]
   \<and> map_sum id upstream_frames (handle_audio_input one_session ''s1''
        [(''type'', JStr ''audio.input''), (''audio'', JStr ''AAAA''),
         (''format'', JStr ''pcm16'')])
      = Inr [(1, session_config test_env JNull JNull),
             (1, audio_append (JStr ''AAAA'')),
             (1, audio_commit)]
   \<and> map_sum id upstream_frames (handle_rtc_audio one_session (JStr ''AAAA''))
      = Inr [(1, session_config test_env JNull JNull), (1, audio_append (JStr ''AAAA''))]"
  by code_simp

subsection \<open>Dispatch and the external API bridge\<close>

lemma call_api_get_status:
  "find_endpoint (api_config st) endpoint = Some cfg \<Longrightarrow>
   endpoint \<noteq> JStr ''amadeus_flight_search'' \<Longrightarrow>
   build_request E cfg endpoint (params_dict params) = Inr (url, headers) \<Longrightarrow>
   py_upper method = Inr ''GET'' \<Longrightarrow>
   http_get E url headers = Responds t (status, body) \<Longrightarrow> status \<noteq> 200 \<Longrightarrow>
   call_api E st endpoint method params =
     (log_io [HttpGet url headers] st,
      Done (api_error_text E endpoint method (''API returned status '' @ str_of_nat status) body))"
  by (simp add: call_api_def Let_def)

lemma log_io_fields:
  "openai_ws (log_io ios st) = openai_ws st"
  "closed_upstream (log_io ios st) = closed_upstream st"
  "upstream_frames (log_io ios st) = upstream_frames st"
  "invocations (log_io ios st) = invocations st"
  "uuids_drawn (log_io ios st) = uuids_drawn st"
  by (simp_all add: log_io_def)

lemma log_invocation_fields:
  "openai_ws (log_invocation f a st) = openai_ws st"
  "closed_upstream (log_invocation f a st) = closed_upstream st"
  "upstream_frames (log_invocation f a st) = upstream_frames st"
  "api_config (log_invocation f a st) = api_config st"
  "amadeus_client (log_invocation f a st) = amadeus_client st"
  "flight_handler (log_invocation f a st) = flight_handler st"
  "invocations (log_invocation f a st) = invocations st @ [(f, a)]"
  by (simp_all add: log_invocation_def)

lemma send_to_client_same: "send_to_client st sid m = Inr st1 \<Longrightarrow> st1 = st"
  by (auto simp: send_to_client_def split: json.splits option.splits if_splits)

text \<open>When the output is bound and the upstream socket is open, the output and
  \<open>response.create\<close> are sent, whatever \<open>send_to_client\<close> does afterwards.\<close>

lemma handle_function_call_sent:
  assumes i: "invoke_capability E st f a = (st1, Done (result, Some out))"
    and up: "openai_ws st1 = Some h" "h \<notin> set (closed_upstream st1)"
    and cid: "py_truthy call_id"
  shows "\<exists>st' r. handle_function_call E st f a sid call_id = (st', Done r)
     \<and> upstream_frames st' =
          upstream_frames st1 @ [(h, function_response E call_id out), (h, response_create)]
     \<and> invocations st' = invocations st1"
proof -
  let ?st4 = "st1\<lparr>upstream_frames := upstream_frames st1
      @ [(h, function_response E call_id out), (h, response_create)]\<rparr>"
  have s: "(if openai_ws st1 \<noteq> None
            then ebind (upstream_send st1 (function_response E call_id out))
                   (\<lambda>st3. upstream_send st3 response_create)
            else Inr st1) = Inr ?st4"
    using up by (simp add: upstream_send_def ebind_def)
  show ?thesis
  proof (cases "send_to_client ?st4 sid (function_result_notice f result)")
    case (Inl e)
    have "handle_function_call E st f a sid call_id = (?st4, Done (error_result e))"
      using i cid s Inl by (simp add: handle_function_call_def Let_def)
    then show ?thesis by simp
  next
    case (Inr st5)
    then have "st5 = ?st4" by (rule send_to_client_same)
    with Inr have "handle_function_call E st f a sid call_id = (?st4, Done result)"
      using i cid s by (simp add: handle_function_call_def Let_def)
    then show ?thesis by simp
  qed
qed

lemma result_output_plain:
  "map_of r ''response_type'' = None \<Longrightarrow> result_output_of E ep (JObj r) = Inr (JObj r)"
  by (simp add: result_output_of_def)

lemma invoke_call_api:
  "call_api E (log_invocation (JStr ''call_external_api'') (JObj args) st)
      (pget args ''endpoint'' JNull) (pget args ''method'' (JStr ''GET''))
      (pget args ''params'' (JObj [])) = (st1, Done (JObj r)) \<Longrightarrow>
   result_output_of E (pget args ''endpoint'' JNull) (JObj r) = Inr out \<Longrightarrow>
   invoke_capability E st (JStr ''call_external_api'') (JObj args)
     = (st1, Done (JObj r, Some out))"
  by (simp add: invoke_capability_def known_capabilities_def ensure_dict_def)

text \<open>
  C6, as stated, fails. A POST to a configured endpoint that answers 500 ends in
  \<open>call_api_legacy\<close>, and so does a GET to a hardcoded endpoint that is not configured:
  the failure result names the endpoint and carries no status code. That result is the
  output sent upstream.
\<close>

theorem C6_counterexample:
  "snd (invoke_capability failing_http one_session (JStr ''call_external_api'')
          (api_call ''orders'' ''POST''))
     = Done (JObj [(''endpoint'', JStr ''orders''), (''method'', JStr ''POST''),
                   (''error'', JStr ''Unknown endpoint: orders''),
                   (''timestamp'', JStr ''2025-01-01T00:00:00''),
                   (''status'', JStr ''error'')],
             Some (JObj [(''endpoint'', JStr ''orders''), (''method'', JStr ''POST''),
                         (''error'', JStr ''Unknown endpoint: orders''),
                         (''timestamp'', JStr ''2025-01-01T00:00:00''),
                         (''status'', JStr ''error'')]))
   \<and> io_log (fst (handle_function_call failing_http one_session (JStr ''call_external_api'')
          (api_call ''orders'' ''POST'') (JStr ''s1'') (JStr ''call_1'')))
     = [HttpPost ''https://orders.example/api'' [] (JObj [])]
   \<and> http_post failing_http ''https://orders.example/api'' [] (JObj [])
     = Responds 1 (500, ''Internal Server Error'')
   \<and> upstream_frames (fst (handle_function_call failing_http one_session
          (JStr ''call_external_api'') (api_call ''orders'' ''POST'') (JStr ''s1'')
          (JStr ''call_1'')))
     = upstream_frames one_session
       @ [(1, function_response failing_http (JStr ''call_1'')
                (JObj [(''endpoint'', JStr ''orders''), (''method'', JStr ''POST''),
                       (''error'', JStr ''Unknown endpoint: orders''),
                       (''timestamp'', JStr ''2025-01-01T00:00:00''),
                       (''status'', JStr ''error'')])),
          (1, response_create)]
   \<and> snd (invoke_capability failing_http one_session (JStr ''call_external_api'')
          (api_call ''weather'' ''GET''))
     = Done (JObj [(''endpoint'', JStr ''weather''), (''method'', JStr ''GET''),
                   (''error'', JStr ''Unknown endpoint: weather''),
                   (''timestamp'', JStr ''2025-01-01T00:00:00''),
                   (''status'', JStr ''error'')],
             Some (JObj [(''endpoint'', JStr ''weather''), (''method'', JStr ''GET''),
                         (''error'', JStr ''Unknown endpoint: weather''),
                         (''timestamp'', JStr ''2025-01-01T00:00:00''),
                         (''status'', JStr ''error'')]))
   \<and> io_log (fst (handle_function_call failing_http one_session (JStr ''call_external_api'')
          (api_call ''weather'' ''GET'') (JStr ''s1'') (JStr ''call_2'')))
     = [HttpGet ''https://wttr.in/New+York?format=j1'' []]"
  by code_simp

text \<open>
  C6, amended. Take a \<open>call_external_api\<close> invocation, with any arguments, whose endpoint
  is configured and active and is not the flight search, whose method is GET (also by
  default, when the arguments name none), whose request can be built and is answered with
  a status other than 200. Then the result of the call is a failure whose \<open>error\<close> entry
  is \<open>API returned status\<close> followed by the status code, and with the upstream socket
  open the dispatch returns and has sent upstream the function output carrying that
  result and then \<open>response.create\<close>.
\<close>

theorem C6_get_status_failure:
  assumes cfg: "find_endpoint (api_config st) (pget args ''endpoint'' JNull) = Some cfg"
    and nf: "pget args ''endpoint'' JNull \<noteq> JStr ''amadeus_flight_search''"
    and req: "build_request E cfg (pget args ''endpoint'' JNull)
                (params_dict (pget args ''params'' (JObj []))) = Inr (url, headers)"
    and get: "py_upper (pget args ''method'' (JStr ''GET'')) = Inr ''GET''"
    and answer: "http_get E url headers = Responds t (status, body)"
    and status: "status \<noteq> 200"
    and up: "openai_ws st = Some h" "h \<notin> set (closed_upstream st)"
    and cid: "py_truthy call_id"
  shows "\<exists>st' returned r.
           handle_function_call E st (JStr ''call_external_api'') (JObj args) sid call_id
             = (st', Done returned)
           \<and> snd (call_api E (log_invocation (JStr ''call_external_api'') (JObj args) st)
                    (pget args ''endpoint'' JNull) (pget args ''method'' (JStr ''GET''))
                    (pget args ''params'' (JObj []))) = Done r
           \<and> is_failure r
           \<and> jget r ''error'' = Some (JStr (''API returned status '' @ str_of_nat status))
           \<and> jget r ''status'' = Some (JStr ''error'')
           \<and> upstream_frames st' =
                upstream_frames st @ [(h, function_response E call_id r), (h, response_create)]"
proof -
  let ?endpoint = "pget args ''endpoint'' JNull"
  let ?m = "pget args ''method'' (JStr ''GET'')"
  let ?st0 = "log_invocation (JStr ''call_external_api'') (JObj args) st"
  let ?r = "api_error_text E ?endpoint ?m (''API returned status '' @ str_of_nat status) body"
  have c: "call_api E ?st0 ?endpoint ?m (pget args ''params'' (JObj []))
      = (log_io [HttpGet url headers] ?st0, Done ?r)"
    using call_api_get_status[of ?st0 ?endpoint cfg E "pget args ''params'' (JObj [])"
        url headers ?m t status body]
      cfg nf req get answer status by (simp add: log_invocation_fields)
  obtain kvs where r: "?r = JObj kvs" "map_of kvs ''response_type'' = None"
    by (simp add: api_error_text_def)
  have i: "invoke_capability E st (JStr ''call_external_api'') (JObj args)
      = (log_io [HttpGet url headers] ?st0, Done (?r, Some ?r))"
    using invoke_call_api[of E args st "log_io [HttpGet url headers] ?st0" kvs ?r] c r
      result_output_plain[OF r(2), of E ?endpoint]
    by simp
  have "\<exists>st' returned.
          handle_function_call E st (JStr ''call_external_api'') (JObj args) sid call_id
            = (st', Done returned)
     \<and> upstream_frames st' = upstream_frames (log_io [HttpGet url headers] ?st0)
            @ [(h, function_response E call_id ?r), (h, response_create)]
     \<and> invocations st' = invocations (log_io [HttpGet url headers] ?st0)"
    by (rule handle_function_call_sent[OF i _ _ cid])
       (simp_all add: log_io_fields log_invocation_fields up)
  then obtain st' returned where
    h: "handle_function_call E st (JStr ''call_external_api'') (JObj args) sid call_id
            = (st', Done returned)"
    and u: "upstream_frames st' =
          upstream_frames st @ [(h, function_response E call_id ?r), (h, response_create)]"
    by (auto simp: log_io_fields log_invocation_fields)
  have f: "is_failure ?r"
    "jget ?r ''error'' = Some (JStr (''API returned status '' @ str_of_nat status))"
    "jget ?r ''status'' = Some (JStr ''error'')"
    by (simp_all add: api_error_text_def is_failure_def)
  have s: "snd (call_api E ?st0 ?endpoint ?m (pget args ''params'' (JObj []))) = Done ?r"
    by (simp add: c)
  from h s f u show ?thesis by blast
qed

theorem C6_get_status_failure_witness:
  "\<exists>st' returned r.
     handle_function_call failing_http one_session (JStr ''call_external_api'')
        (JObj [(''params'', JObj []), (''endpoint'', JStr ''orders'')])
        (JStr ''s1'') (JStr ''call_1'') = (st', Done returned)
     \<and> is_failure r
     \<and> jget r ''error'' = Some (JStr ''API returned status 500'')
     \<and> upstream_frames st' =
          upstream_frames one_session
          @ [(1, function_response failing_http (JStr ''call_1'') r), (1, response_create)]"
proof -
  let ?args = "[(''params'', JObj []), (''endpoint'', JStr ''orders'')]"
  have a: "pget ?args ''endpoint'' JNull = JStr ''orders''"
    "pget ?args ''method'' (JStr ''GET'') = JStr ''GET''"
    "pget ?args ''params'' (JObj []) = JObj []"
    by (simp_all add: pget_def)
  have cfg: "find_endpoint (api_config one_session) (pget ?args ''endpoint'' JNull)
      = Some (test_endpoint ''orders'' ''https://orders.example/api'')"
    unfolding a by code_simp
  have nf: "pget ?args ''endpoint'' JNull \<noteq> JStr ''amadeus_flight_search''"
    unfolding a by simp
  have req: "build_request failing_http (test_endpoint ''orders'' ''https://orders.example/api'')
      (pget ?args ''endpoint'' JNull) (params_dict (pget ?args ''params'' (JObj [])))
      = Inr (''https://orders.example/api'', [])"
    unfolding a by code_simp
  have get: "py_upper (pget ?args ''method'' (JStr ''GET'')) = Inr ''GET''"
    unfolding a by code_simp
  have answer: "http_get failing_http ''https://orders.example/api'' []
      = Responds 1 (500, ''Internal Server Error'')"
    by (simp add: failing_http_def)
  have status: "(500::nat) \<noteq> 200" by simp
  have up: "openai_ws one_session = Some 1" "1 \<notin> set (closed_upstream one_session)"
    by code_simp+
  have cid: "py_truthy (JStr ''call_1'')" by simp
  have s: "''API returned status '' @ str_of_nat 500 = ''API returned status 500''"
    by code_simp
  show ?thesis
    using C6_get_status_failure [OF cfg nf req get answer status up cid, of "JStr ''s1''"]
    unfolding s by blast
qed

subsection \<open>The image result\<close>

lemma message_key_present:
  "map_of kvs ''message'' = Some u \<Longrightarrow> ''message'' \<in> fst ` set kvs"
  by (auto dest: map_of_SomeD intro: image_eqI[where x = "(''message'', u)"])

lemma shape_get_200_dog:
  "map_of kvs ''message'' = Some u \<Longrightarrow>
   shape_get_200 E (JStr ''dog'') m (JObj kvs) =
     Inr (dog_image E (JStr ''dog'') m u (pget kvs ''status'' (JStr ''success'')))"
  by (simp add: shape_get_200_def message_key_present ebind_def)

lemma call_api_dog:
  "find_endpoint (api_config st) (JStr ''dog'') = Some cfg \<Longrightarrow>
   build_request E cfg (JStr ''dog'') (params_dict params) = Inr (url, headers) \<Longrightarrow>
   py_upper m = Inr ''GET'' \<Longrightarrow>
   http_get E url headers = Responds t (200, body) \<Longrightarrow>
   json_loads E body = Inr (JObj kvs) \<Longrightarrow>
   map_of kvs ''message'' = Some u \<Longrightarrow>
   call_api E st (JStr ''dog'') m params =
     (log_io [HttpGet url headers] st,
      Done (dog_image E (JStr ''dog'') m u (pget kvs ''status'' (JStr ''success''))))"
  by (simp add: call_api_def Let_def shape_get_200_dog)

lemma result_output_dog:
  "py_truthy u \<Longrightarrow>
   result_output_of E ep (dog_image E ep' m u s) =
     Inr (JObj [(''type'', JStr ''image''), (''url'', u),
                (''description'', JStr ''Here's a random dog picture!''),
                (''note'', JStr (''I've retrieved an image from '' @ py_str E ep
                   @ ''. The image shows: '' @ py_str E (JStr ''Here's a random dog picture!'')
                   @ ''. The image URL is: '' @ py_str E u))])"
  by (simp add: result_output_of_def dog_image_def image_envelope_def pget_def)

text \<open>
  C9, as stated, fails. The reshaping is written in the GET branch of \<open>call_api\<close> only: a
  POST to the configured \<open>dog\<close> endpoint that is answered with status 200 and the body
  \<open>{"message": "http://x/img.png"}\<close> gives the plain success result, and that result, not
  an envelope, is the output handed upstream.
\<close>

theorem C9_counterexample:
  "snd (invoke_capability image_http one_session (JStr ''call_external_api'')
          (api_call ''dog'' ''POST''))
     = Done (JObj [(''endpoint'', JStr ''dog''), (''method'', JStr ''POST''),
                   (''response'', JObj [(''message'', JStr ''http://x/img.png'')]),
                   (''timestamp'', JStr ''2025-01-01T00:00:00''),
                   (''status'', JStr ''success'')],
             Some (JObj [(''endpoint'', JStr ''dog''), (''method'', JStr ''POST''),
                         (''response'', JObj [(''message'', JStr ''http://x/img.png'')]),
                         (''timestamp'', JStr ''2025-01-01T00:00:00''),
                         (''status'', JStr ''success'')]))
   \<and> find_endpoint (api_config one_session) (JStr ''dog'')
       = Some (test_endpoint ''dog'' ''https://dog.example/random'')
   \<and> http_post image_http ''https://dog.example/random'' [] (JObj []) = Responds 1 (200, ''body'')
   \<and> response_json image_http ''body'' = Inr (JObj [(''message'', JStr ''http://x/img.png'')])
   \<and> upstream_frames (fst (handle_function_call image_http one_session
          (JStr ''call_external_api'') (api_call ''dog'' ''POST'') (JStr ''s1'')
          (JStr ''call_1'')))
     = upstream_frames one_session
       @ [(1, function_response image_http (JStr ''call_1'')
                (JObj [(''endpoint'', JStr ''dog''), (''method'', JStr ''POST''),
                       (''response'', JObj [(''message'', JStr ''http://x/img.png'')]),
                       (''timestamp'', JStr ''2025-01-01T00:00:00''),
                       (''status'', JStr ''success'')])),
          (1, response_create)]"
  by code_simp

text \<open>
  C9, amended. Take a \<open>call_external_api\<close> invocation, with any arguments, whose endpoint
  is the configured endpoint \<open>dog\<close> (the one endpoint the code treats as image-bearing),
  whose method is GET (also by default, when the arguments name none) and whose 200
  answer decodes to an object with a non-empty \<open>message\<close>. With the upstream socket open,
  the output handed upstream is the envelope with \<open>type\<close> \<open>image\<close>, \<open>url\<close> the message,
  the fixed non-empty description and a note, followed by \<open>response.create\<close>.
\<close>

theorem C9_dog_image_envelope:
  assumes ep: "pget args ''endpoint'' JNull = JStr ''dog''"
    and cfg: "find_endpoint (api_config st) (JStr ''dog'') = Some cfg"
    and req: "build_request E cfg (JStr ''dog'') (params_dict (pget args ''params'' (JObj [])))
                = Inr (url, headers)"
    and get: "py_upper (pget args ''method'' (JStr ''GET'')) = Inr ''GET''"
    and answer: "http_get E url headers = Responds t (200, body)"
    and decode: "json_loads E body = Inr (JObj kvs)"
    and msg: "map_of kvs ''message'' = Some image_url" "py_truthy image_url"
    and up: "openai_ws st = Some h" "h \<notin> set (closed_upstream st)"
    and cid: "py_truthy call_id"
  shows "\<exists>st' returned note.
           handle_function_call E st (JStr ''call_external_api'') (JObj args) sid call_id
             = (st', Done returned)
           \<and> upstream_frames st' =
                upstream_frames st
                @ [(h, function_response E call_id
                         (JObj [(''type'', JStr ''image''), (''url'', image_url),
                                (''description'', JStr ''Here's a random dog picture!''),
                                (''note'', JStr note)])),
                   (h, response_create)]"
proof -
  let ?m = "pget args ''method'' (JStr ''GET'')"
  let ?st0 = "log_invocation (JStr ''call_external_api'') (JObj args) st"
  let ?r = "dog_image E (JStr ''dog'') ?m image_url (pget kvs ''status'' (JStr ''success''))"
  let ?note = "''I've retrieved an image from '' @ py_str E (JStr ''dog'')
                   @ ''. The image shows: '' @ py_str E (JStr ''Here's a random dog picture!'')
                   @ ''. The image URL is: '' @ py_str E image_url"
  let ?out = "JObj [(''type'', JStr ''image''), (''url'', image_url),
                (''description'', JStr ''Here's a random dog picture!''),
                (''note'', JStr ?note)]"
  have c: "call_api E ?st0 (JStr ''dog'') ?m (pget args ''params'' (JObj []))
      = (log_io [HttpGet url headers] ?st0, Done ?r)"
    using call_api_dog[of ?st0 cfg E "pget args ''params'' (JObj [])" url headers ?m t body
        kvs image_url]
      cfg req get answer decode msg by (simp add: log_invocation_fields)
  obtain fs where r: "?r = JObj fs" by (simp add: dog_image_def)
  have o: "result_output_of E (JStr ''dog'') ?r = Inr ?out"
    by (rule result_output_dog[OF msg(2)])
  have i: "invoke_capability E st (JStr ''call_external_api'') (JObj args)
      = (log_io [HttpGet url headers] ?st0, Done (?r, Some ?out))"
    using invoke_call_api[of E args st "log_io [HttpGet url headers] ?st0" fs ?out] c r o
    by (simp add: ep)
  have "\<exists>st' returned.
          handle_function_call E st (JStr ''call_external_api'') (JObj args) sid call_id
            = (st', Done returned)
     \<and> upstream_frames st' = upstream_frames (log_io [HttpGet url headers] ?st0)
            @ [(h, function_response E call_id ?out), (h, response_create)]
     \<and> invocations st' = invocations (log_io [HttpGet url headers] ?st0)"
    by (rule handle_function_call_sent[OF i _ _ cid])
       (simp_all add: log_io_fields log_invocation_fields up)
  then show ?thesis
    by (auto simp: log_io_fields log_invocation_fields)
qed

theorem C9_dog_image_envelope_witness:
  "\<exists>st' returned note.
     handle_function_call image_http one_session (JStr ''call_external_api'')
        (JObj [(''params'', JObj []), (''endpoint'', JStr ''dog'')])
        (JStr ''s1'') (JStr ''call_1'') = (st', Done returned)
     \<and> upstream_frames st' =
          upstream_frames one_session
          @ [(1, function_response image_http (JStr ''call_1'')
                   (JObj [(''type'', JStr ''image''), (''url'', JStr ''http://x/img.png''),
                          (''description'', JStr ''Here's a random dog picture!''),
                          (''note'', JStr note)])),
             (1, response_create)]"
proof -
  let ?args = "[(''params'', JObj []), (''endpoint'', JStr ''dog'')]"
  have a: "pget ?args ''method'' (JStr ''GET'') = JStr ''GET''"
    "pget ?args ''params'' (JObj []) = JObj []"
    by (simp_all add: pget_def)
  have ep: "pget ?args ''endpoint'' JNull = JStr ''dog''"
    by (simp add: pget_def)
  have cfg: "find_endpoint (api_config one_session) (JStr ''dog'')
      = Some (test_endpoint ''dog'' ''https://dog.example/random'')"
    by code_simp
  have req: "build_request image_http (test_endpoint ''dog'' ''https://dog.example/random'')
      (JStr ''dog'') (params_dict (pget ?args ''params'' (JObj [])))
      = Inr (''https://dog.example/random'', [])"
    unfolding a by code_simp
  have get: "py_upper (pget ?args ''method'' (JStr ''GET'')) = Inr ''GET''"
    unfolding a by code_simp
  have answer: "http_get image_http ''https://dog.example/random'' [] = Responds 1 (200, ''body'')"
    by (simp add: image_http_def)
  have decode: "json_loads image_http ''body'' = Inr (JObj [(''message'', JStr ''http://x/img.png'')])"
    by (simp add: image_http_def image_body_def)
  have msg: "map_of [(''message'', JStr ''http://x/img.png'')] ''message''
      = Some (JStr ''http://x/img.png'')" "py_truthy (JStr ''http://x/img.png'')"
    by simp_all
  have up: "openai_ws one_session = Some 1" "1 \<notin> set (closed_upstream one_session)"
    by code_simp+
  have cid: "py_truthy (JStr ''call_1'')" by simp
  show ?thesis
    using C9_dog_image_envelope [OF ep cfg req get answer decode msg up cid, of "JStr ''s1''"]
    by blast
qed

subsection \<open>Providers that never return\<close>


text \<open>
  C5. \<open>call_api\<close> awaits its request without a timeout. For a GET of a configured
  endpoint whose request never completes, the dispatch never returns: the request has
  been made, the client has been told of the function call, no function output is sent
  upstream, and the pump never reaches the event that follows. The knowledge base search
  awaits its store in the same way. The flight search of the same class does bound its
  provider: with an Amadeus client that never answers it returns the failure that tells
  of the timeout.
\<close>

theorem C5_request_awaited_without_timeout:
  "http_get silent_http ''https://orders.example/api'' [] = NeverReturns
   \<and> snd (handle_openai_messages silent_http 10 ''s1'' one_session initial_pump
          [function_call_done (JStr ''call_external_api'') (JStr ''call_1'') ''orders'',
           event ''input_audio_buffer.speech_started'']) = Pending
   \<and> io_log (fst (handle_openai_messages silent_http 10 ''s1'' one_session initial_pump
          [function_call_done (JStr ''call_external_api'') (JStr ''call_1'') ''orders'',
           event ''input_audio_buffer.speech_started'']))
       = [HttpGet ''https://orders.example/api'' []]
   \<and> upstream_frames (fst (handle_openai_messages silent_http 10 ''s1'' one_session initial_pump
          [function_call_done (JStr ''call_external_api'') (JStr ''call_1'') ''orders'',
           event ''input_audio_buffer.speech_started'']))
       = upstream_frames one_session
   \<and> map snd (frames_since one_session
        (fst (handle_openai_messages silent_http 10 ''s1'' one_session initial_pump
          [function_call_done (JStr ''call_external_api'') (JStr ''call_1'') ''orders'',
           event ''input_audio_buffer.speech_started''])))
       = [JObj [(''type'', JStr ''function_call''), (''name'', JStr ''call_external_api''),
                (''arguments'', api_call ''orders'' ''GET'')]]
   \<and> snd (search_rag (Some (\<lambda>q k. NeverReturns)) (JStr ''refund policy'') (JInt 5)) = Pending
   \<and> snd (search_flights_builtin test_env silent_amadeus test_flight_params)
       = flight_error flight_timeout_message"
  by code_simp

subsection \<open>Events with the same call identifier\<close>








subsection \<open>Turns of the upstream pump\<close>










































end
